theory Spec2Isabelle
  imports Main
begin

section \<open>JavaScript strings and values\<close>

text \<open>
  Status and stage names are ASCII words, so a string is a \<^typ>\<open>string\<close> and
  \<open>String.prototype.toLowerCase\<close> is modelled on the ASCII letters: each of \<open>A\<close> to
  \<open>Z\<close> becomes its lower-case letter, every other character is kept.
\<close>

definition upperToLower :: "(char \<times> char) list" where
  "upperToLower =
     [(CHR ''A'', CHR ''a''), (CHR ''B'', CHR ''b''), (CHR ''C'', CHR ''c''),
      (CHR ''D'', CHR ''d''), (CHR ''E'', CHR ''e''), (CHR ''F'', CHR ''f''),
      (CHR ''G'', CHR ''g''), (CHR ''H'', CHR ''h''), (CHR ''I'', CHR ''i''),
      (CHR ''J'', CHR ''j''), (CHR ''K'', CHR ''k''), (CHR ''L'', CHR ''l''),
      (CHR ''M'', CHR ''m''), (CHR ''N'', CHR ''n''), (CHR ''O'', CHR ''o''),
      (CHR ''P'', CHR ''p''), (CHR ''Q'', CHR ''q''), (CHR ''R'', CHR ''r''),
      (CHR ''S'', CHR ''s''), (CHR ''T'', CHR ''t''), (CHR ''U'', CHR ''u''),
      (CHR ''V'', CHR ''v''), (CHR ''W'', CHR ''w''), (CHR ''X'', CHR ''x''),
      (CHR ''Y'', CHR ''y''), (CHR ''Z'', CHR ''z'')]"

definition toLowerChar :: "char \<Rightarrow> char" where
  "toLowerChar c = (case map_of upperToLower c of Some l \<Rightarrow> l | None \<Rightarrow> c)"

definition toLowerCase :: "string \<Rightarrow> string" where
  "toLowerCase s = map toLowerChar s"

text \<open>
  The values a property read can give in the functions below: a number, a function
  object or a plain object. \<open>undefined\<close> is the \<^const>\<open>None\<close> of an option.
\<close>

datatype jsvalue = JNumber nat | JFunction string | JObject string

text \<open>\<open>v || 0\<close> on the result of a property read: \<open>undefined\<close> and the number 0 are
  falsy, every function and object is truthy.\<close>

fun orZero :: "jsvalue option \<Rightarrow> jsvalue" where
  "orZero None = JNumber 0"
| "orZero (Some (JNumber n)) = (if n = 0 then JNumber 0 else JNumber n)"
| "orZero (Some v) = v"

text \<open>\<open>s || d\<close> on an optional string: \<open>undefined\<close>, \<open>null\<close> and the empty string are
  falsy.\<close>

fun orString :: "string option \<Rightarrow> string \<Rightarrow> string" where
  "orString None d = d"
| "orString (Some s) d = (if s = [] then d else s)"

section \<open>Stage to progress (documentProcessingUtils.ts, DocumentService)\<close>

text \<open>The own properties of the object literal \<open>stageProgress\<close>, in source order.\<close>

definition stageProgress :: "(string \<times> nat) list" where
  "stageProgress =
     [(''upload_complete'', 10),
      (''uploaded'', 10),
      (''text_extraction'', 20),
      (''parsing_started'', 30),
      (''chunking'', 50),
      (''vectorization'', 70),
      (''indexing'', 85),
      (''complete'', 100),
      (''processed'', 100),
      (''completed'', 100),
      (''parsing_failed'', 0),
      (''error'', 0)]"

text \<open>
  An object literal inherits from \<open>Object.prototype\<close>, and \<open>obj[key]\<close> walks the
  prototype chain when \<open>key\<close> is not an own property. These are the properties of
  \<open>Object.prototype\<close> (ECMAScript, with Annex B).
\<close>

definition objectPrototype :: "(string \<times> jsvalue) list" where
  "objectPrototype =
     [(''constructor'', JFunction ''Object''),
      (''hasOwnProperty'', JFunction ''hasOwnProperty''),
      (''isPrototypeOf'', JFunction ''isPrototypeOf''),
      (''propertyIsEnumerable'', JFunction ''propertyIsEnumerable''),
      (''toLocaleString'', JFunction ''toLocaleString''),
      (''toString'', JFunction ''toString''),
      (''valueOf'', JFunction ''valueOf''),
      (''__defineGetter__'', JFunction ''__defineGetter__''),
      (''__defineSetter__'', JFunction ''__defineSetter__''),
      (''__lookupGetter__'', JFunction ''__lookupGetter__''),
      (''__lookupSetter__'', JFunction ''__lookupSetter__''),
      (''__proto__'', JObject ''Object.prototype'')]"

text \<open>\<open>stageProgress[key]\<close>: own property first, then the prototype.\<close>

definition stageProgressGet :: "string \<Rightarrow> jsvalue option" where
  "stageProgressGet key =
     (case map_of stageProgress key of
        Some n \<Rightarrow> Some (JNumber n)
      | None \<Rightarrow> map_of objectPrototype key)"

text \<open>\<open>getProcessingProgress\<close>: \<open>return stageProgress[stage.toLowerCase()] || 0\<close>.\<close>

definition getProcessingProgress :: "string \<Rightarrow> jsvalue" where
  "getProcessingProgress stage = orZero (stageProgressGet (toLowerCase stage))"

text \<open>\<open>DocumentService.calculateProgressPercentage\<close>: the same table behind the guard
  \<open>if (!processing_stage) return 0\<close>; the parameter is optional.\<close>

definition calculateProgressPercentage :: "string option \<Rightarrow> jsvalue" where
  "calculateProgressPercentage processing_stage =
     (case processing_stage of
        None \<Rightarrow> JNumber 0
      | Some s \<Rightarrow> if s = [] then JNumber 0
                  else orZero (stageProgressGet (toLowerCase s)))"

section \<open>Status mapping (useDocumentQueries.ts, DocumentService)\<close>

datatype FrontendStatus = UI_uploading | UI_processing | UI_ready | UI_error

text \<open>The string a UI status is at run time.\<close>

fun statusString :: "FrontendStatus \<Rightarrow> string" where
  "statusString UI_uploading = ''uploading''"
| "statusString UI_processing = ''processing''"
| "statusString UI_ready = ''ready''"
| "statusString UI_error = ''error''"

definition BACKEND_STATUSES :: "string list" where
  "BACKEND_STATUSES =
     [''uploaded'', ''pending'', ''processing'', ''completed'', ''error'',
      ''processed'', ''chunking'', ''vectorizing'', ''indexing'']"

definition isBackendStatus :: "string \<Rightarrow> bool" where
  "isBackendStatus status = (status \<in> set BACKEND_STATUSES)"

text \<open>What the code does besides returning values: every console call, toast, cache
  request, timer and network request is an entry of an effect log, in program order.
  Console messages are written without their pictograph and without the values they
  interpolate; toasts and progress messages are the source's strings.\<close>

datatype queryKey = QK_documents | QK_document string

record UploadProgress =
  percentage :: nat
  up_status :: string
  message :: "string option"

datatype effect =
    ConsoleLog string
  | ConsoleWarn string string
  | ConsoleError string
  | ToastSuccess string
  | ToastError string
  | SetQueryStatus string FrontendStatus
  | InvalidateQueries queryKey
  | InvalidateQueriesAfter nat queryKey
  | GetAsyncProcessingStatus string string
  | SetTimeoutPoll nat
  | SetInterval nat nat
  | ClearInterval nat
  | ApiExecute
  | PostStartAsyncProcessing string
  | CreateProgressWebSocket nat string
  | WebSocketClose nat
  | UploadDocumentExecute
  | OnUploadProgress UploadProgress
  | OnDocumentUploaded string

text \<open>
  \<open>mapApiStatusToUIStatus\<close>: a \<open>switch\<close> on the string itself (strict equality, no
  normalisation). The parameter is typed \<open>BackendStatus\<close>, which is erased at run time,
  so the model takes any string; the \<open>default\<close> branch warns on the console and
  returns \<open>error\<close>.
\<close>

definition mapApiStatusToUIStatus :: "string \<Rightarrow> FrontendStatus \<times> effect list" where
  "mapApiStatusToUIStatus status =
     (if status = ''uploaded'' \<or> status = ''pending'' then (UI_uploading, [])
      else if status = ''processing'' \<or> status = ''chunking''
              \<or> status = ''vectorizing'' \<or> status = ''indexing'' then (UI_processing, [])
      else if status = ''completed'' \<or> status = ''processed'' then (UI_ready, [])
      else if status = ''error'' then (UI_error, [])
      else (UI_error, [ConsoleWarn ''Unhandled document status:'' status]))"

text \<open>\<open>String.prototype.includes\<close>: the second string occurs in the first as a
  contiguous run.\<close>

fun strIncludes :: "string \<Rightarrow> string \<Rightarrow> bool" where
  "strIncludes [] t = (t = [])"
| "strIncludes (c # cs) t = (take (length t) (c # cs) = t \<or> strIncludes cs t)"

text \<open>
  \<open>adaptDocumentStatus\<close> (the type adapters, called by \<open>adaptApiDocumentToUI\<close> on
  the status of every document the API returns): the status is lower-cased, then
  looked up in three lists, then searched for \<open>error\<close> and \<open>fail\<close>; what is left is
  warned about and becomes \<open>error\<close>. The lower-casing function is a parameter of
  \<open>adaptDocumentStatusWith\<close>, so that what is proved of it holds whatever
  \<open>toLowerCase\<close> does outside the ASCII letters; \<open>adaptDocumentStatus\<close> is the instance
  with \<^const>\<open>toLowerCase\<close>.
\<close>

definition adaptDocumentStatusWith ::
  "(string \<Rightarrow> string) \<Rightarrow> string \<Rightarrow> FrontendStatus \<times> effect list" where
  "adaptDocumentStatusWith lower apiStatus =
     (if lower apiStatus \<in> set [''pending'', ''uploaded'', ''uploading'']
      then (UI_uploading,
            [ConsoleLog ''Adapting document status from backend'',
             ConsoleLog ''Status mapped to: uploading''])
      else if lower apiStatus
                \<in> set [''processing'', ''chunking'', ''vectorizing'', ''indexing'', ''parsing'']
      then (UI_processing,
            [ConsoleLog ''Adapting document status from backend'',
             ConsoleLog ''Status mapped to: processing''])
      else if lower apiStatus \<in> set [''processed'', ''completed'', ''ready'', ''complete'']
      then (UI_ready,
            [ConsoleLog ''Adapting document status from backend'',
             ConsoleLog ''Status mapped to: ready''])
      else if strIncludes (lower apiStatus) ''error'' \<or> strIncludes (lower apiStatus) ''fail''
      then (UI_error,
            [ConsoleLog ''Adapting document status from backend'',
             ConsoleLog ''Status mapped to: error''])
      else (UI_error,
            [ConsoleLog ''Adapting document status from backend'',
             ConsoleWarn ''Unknown status, defaulting to error:'' apiStatus]))"

definition adaptDocumentStatus :: "string \<Rightarrow> FrontendStatus \<times> effect list" where
  "adaptDocumentStatus apiStatus = adaptDocumentStatusWith toLowerCase apiStatus"

text \<open>A thrown value: an \<open>Error\<close> instance with its message, or anything else. A promise
  settles to a value or rejects with a thrown value.\<close>

datatype thrown = ErrorInstance string | NotAnError

datatype 'a settled = Resolved 'a | Rejected thrown

record BackendDocumentResponse =
  resp_status :: string
  resp_processing_stage :: "string option"
  resp_page_count :: "nat option"
  resp_chunk_count :: "nat option"
  resp_processing_error :: "string option"

record DocumentStatus =
  ds_status :: FrontendStatus
  ds_processing_stage :: "string option"
  ds_page_count :: "nat option"
  ds_chunk_count :: "nat option"
  ds_processing_time_ms :: "nat option"
  ds_progress_percentage :: jsvalue
  ds_error_message :: "string option"

text \<open>The \<open>switch (response.status)\<close> of \<open>getDocumentStatus\<close>; its \<open>default\<close> label
  stands with \<open>uploaded\<close> and \<open>pending\<close>.\<close>

definition frontendStatus :: "string \<Rightarrow> FrontendStatus" where
  "frontendStatus status =
     (if status = ''processed'' \<or> status = ''completed'' then UI_ready
      else if status = ''error'' then UI_error
      else if status = ''processing'' then UI_processing
      else UI_processing)"

text \<open>
  \<open>DocumentService.getDocumentStatus\<close>. The second argument is how the request
  \<open>apiClient.get(DOCUMENT_BY_ID(documentId))\<close> settled; the whole body is inside
  \<open>try\<close>, and the \<open>catch\<close> block returns a value.
\<close>

definition getDocumentStatus ::
  "string \<Rightarrow> BackendDocumentResponse settled \<Rightarrow> DocumentStatus settled" where
  "getDocumentStatus documentId request =
     (case request of
        Resolved response \<Rightarrow>
          Resolved
            \<lparr>ds_status = frontendStatus (resp_status response),
             ds_processing_stage = Some (orString (resp_processing_stage response) ''uploaded''),
             ds_page_count = resp_page_count response,
             ds_chunk_count = resp_chunk_count response,
             ds_processing_time_ms = None,
             ds_progress_percentage =
               calculateProgressPercentage
                 (Some (orString (resp_processing_stage response) ''uploaded'')),
             ds_error_message = resp_processing_error response\<rparr>
      | Rejected err \<Rightarrow>
          Resolved
            \<lparr>ds_status = UI_error,
             ds_processing_stage = None,
             ds_page_count = None,
             ds_chunk_count = None,
             ds_processing_time_ms = None,
             ds_progress_percentage = JNumber 0,
             ds_error_message =
               Some (case err of ErrorInstance m \<Rightarrow> m | NotAnError \<Rightarrow> ''Unknown error'')\<rparr>)"

text \<open>
  The \<open>refetchInterval\<close> callback of \<open>useDocumentStatusQuery\<close> for document \<open>docId\<close>:
  the argument is \<open>data?.status\<close>, the result is the next interval (\<open>None\<close> for
  \<open>false\<close>: polling stops) with the effects of the call.
\<close>

definition refetchInterval :: "string \<Rightarrow> string option \<Rightarrow> nat option \<times> effect list" where
  "refetchInterval docId status =
     (case status of
        None \<Rightarrow> (None, [ConsoleLog ''No status data, stopping polling''])
      | Some st \<Rightarrow>
          if st = [] then (None, [ConsoleLog ''No status data, stopping polling''])
          else if st \<in> set [''uploaded'', ''pending'', ''processing'', ''chunking'',
                               ''vectorizing'', ''indexing'']
          then (Some 2000, [ConsoleLog ''Polling document status''])
          else if st \<in> set [''ready'', ''completed'', ''processed'', ''error'', ''failed'']
          then (None,
                [ConsoleLog ''Stopping polling for terminal status'',
                 InvalidateQueriesAfter 100 QK_documents,
                 InvalidateQueriesAfter 100 (QK_document docId)]
                @ (if st \<in> set [''processed'', ''completed'', ''ready'']
                   then [ToastSuccess ''Document processing completed!''] else []))
          else (None, [ConsoleLog ''Unknown status, stopping polling to prevent infinite loop'']))"

section \<open>Job status polling after upload (useUploadDocumentMutation)\<close>

record ProcessingProgress =
  total_pages :: nat
  processed_pages :: nat
  total_chunks :: nat
  processed_chunks :: nat
  vectorized_chunks :: nat
  current_stage :: string
  memory_usage_mb :: nat
  processing_time_ms :: nat
  completion_percentage :: nat

record AsyncProcessingStatus =
  job_status :: string
  job_error_message :: "string option"
  job_progress :: "ProcessingProgress option"

definition maxAttempts :: nat where
  "maxAttempts = 150"

definition completedToast :: string where
  "completedToast = ''Document processing completed successfully!''"

definition failedToast :: "string option \<Rightarrow> string" where
  "failedToast error_message =
     ''Document processing failed: '' @ orString error_message ''Unknown error''"

definition timedOutToast :: string where
  "timedOutToast = ''Document processing timed out - please try again''"

definition monitorToast :: string where
  "monitorToast = ''Failed to monitor document processing''"

text \<open>
  \<open>poll\<close> inside \<open>pollAsyncJobStatus\<close>, for document \<open>d\<close> and job \<open>j\<close>. Each call
  counts an attempt and issues one request; the list holds how the successive
  requests settle. The result is the effect log and whether polling has stopped: it
  has not when the last request issued is still in flight.
\<close>

fun poll ::
  "string \<Rightarrow> string \<Rightarrow> nat \<Rightarrow> AsyncProcessingStatus settled list \<Rightarrow> effect list \<times> bool" where
  "poll d j attempts [] = ([GetAsyncProcessingStatus d j], False)"
| "poll d j attempts (Resolved jobStatus # rs) =
     (if job_status jobStatus = ''completed'' then
        ([GetAsyncProcessingStatus d j,
          ConsoleLog ''Async processing completed successfully!'',
          SetQueryStatus d UI_ready,
          InvalidateQueries QK_documents,
          InvalidateQueries (QK_document d),
          ToastSuccess completedToast], True)
      else if job_status jobStatus = ''failed'' then
        ([GetAsyncProcessingStatus d j,
          SetQueryStatus d UI_error,
          ToastError (failedToast (job_error_message jobStatus))], True)
      else if Suc attempts \<ge> maxAttempts then
        ([GetAsyncProcessingStatus d j,
          ConsoleWarn ''Async job polling timeout'' [],
          SetQueryStatus d UI_error,
          ToastError timedOutToast], True)
      else
        (case poll d j (Suc attempts) rs of
           (es, stopped) \<Rightarrow>
             ([GetAsyncProcessingStatus d j, SetTimeoutPoll 2000] @ es, stopped)))"
| "poll d j attempts (Rejected err # rs) =
     (if Suc attempts \<ge> maxAttempts then
        ([GetAsyncProcessingStatus d j,
          ConsoleError ''Error polling async job status:'',
          SetQueryStatus d UI_error,
          ToastError monitorToast], True)
      else
        (case poll d j (Suc attempts) rs of
           (es, stopped) \<Rightarrow>
             ([GetAsyncProcessingStatus d j,
               ConsoleError ''Error polling async job status:'',
               SetTimeoutPoll 2000] @ es, stopped)))"

definition pollAsyncJobStatus ::
  "string \<Rightarrow> string \<Rightarrow> AsyncProcessingStatus settled list \<Rightarrow> effect list \<times> bool" where
  "pollAsyncJobStatus d j rs = poll d j 0 rs"

section \<open>Polling hook (useApi.ts, usePolling)\<close>

text \<open>
  The effect of \<open>usePolling\<close> when \<open>enabled\<close> changes: \<open>ref\<close> is
  \<open>intervalRef.current\<close>, \<open>h\<close> the handle the next \<open>setInterval\<close> returns. The
  result is the effects in order and the new \<open>intervalRef.current\<close>.
\<close>

definition startPolling :: "nat \<Rightarrow> nat option \<Rightarrow> nat \<Rightarrow> effect list \<times> nat option" where
  "startPolling interval ref h =
     ((case ref of None \<Rightarrow> [] | Some t \<Rightarrow> [ClearInterval t]) @ [SetInterval h interval], Some h)"

definition stopPolling :: "nat option \<Rightarrow> effect list \<times> nat option" where
  "stopPolling ref = (case ref of None \<Rightarrow> ([], None) | Some t \<Rightarrow> ([ClearInterval t], None))"

definition usePollingEffect ::
  "bool \<Rightarrow> nat \<Rightarrow> nat option \<Rightarrow> nat \<Rightarrow> effect list \<times> nat option" where
  "usePollingEffect enabled interval ref h =
     (if enabled
      then (ApiExecute # fst (startPolling interval ref h), snd (startPolling interval ref h))
      else stopPolling ref)"

section \<open>Progress channel (DocumentService.createProgressWebSocket)\<close>

text \<open>A received frame after \<open>JSON.parse\<close>: the three message types the handler
  reads, any other object, or text that does not parse.\<close>

datatype wsMessage =
    ProgressUpdate "ProcessingProgress option"
  | JobStatus string
  | Pong
  | OtherMessage
  | Malformed

text \<open>What the browser delivers to the socket's handlers; \<open>PingTimer\<close> is one firing of
  the interval registered in \<open>onopen\<close>.\<close>

datatype wsEvent = WsOpen | WsMessage wsMessage | WsErrorEvent | WsCloseEvent nat | PingTimer

datatype callback = CbProgress ProcessingProgress | CbStatusChange string | CbError string

text \<open>The callbacks of the caller that \<open>onmessage\<close>, \<open>onerror\<close> and \<open>onclose\<close>
  invoke.\<close>

fun channelCallbacks :: "wsEvent \<Rightarrow> callback list" where
  "channelCallbacks (WsMessage (ProgressUpdate (Some p))) = [CbProgress p]"
| "channelCallbacks (WsMessage (JobStatus status)) = [CbStatusChange status]"
| "channelCallbacks WsErrorEvent = [CbError ''WebSocket connection error'']"
| "channelCallbacks (WsCloseEvent code) =
     (if code = 1000 then [] else [CbError ''WebSocket connection closed unexpectedly''])"
| "channelCallbacks _ = []"

datatype readyState = CONNECTING | OPEN | CLOSING | CLOSED

datatype channelEffect = SetPingInterval nat | SendPing | Invoke callback | LogParseError

record channel =
  readyState :: readyState
  pingIntervals :: nat
  channelLog :: "channelEffect list"

definition createProgressWebSocket :: channel where
  "createProgressWebSocket = \<lparr>readyState = CONNECTING, pingIntervals = 0, channelLog = []\<rparr>"

fun channelStep :: "channel \<Rightarrow> wsEvent \<Rightarrow> channel" where
  "channelStep c WsOpen =
     c\<lparr>readyState := OPEN, pingIntervals := Suc (pingIntervals c),
       channelLog := channelLog c @ [SetPingInterval 30000]\<rparr>"
| "channelStep c PingTimer =
     (if 0 < pingIntervals c \<and> readyState c = OPEN
      then c\<lparr>channelLog := channelLog c @ [SendPing]\<rparr> else c)"
| "channelStep c (WsMessage Malformed) = c\<lparr>channelLog := channelLog c @ [LogParseError]\<rparr>"
| "channelStep c (WsCloseEvent code) =
     c\<lparr>readyState := CLOSED,
       channelLog := channelLog c @ map Invoke (channelCallbacks (WsCloseEvent code))\<rparr>"
| "channelStep c ev = c\<lparr>channelLog := channelLog c @ map Invoke (channelCallbacks ev)\<rparr>"

definition channelRun :: "wsEvent list \<Rightarrow> channel" where
  "channelRun evs = foldl channelStep createProgressWebSocket evs"

fun isErrorCallback :: "channelEffect \<Rightarrow> bool" where
  "isErrorCallback (Invoke (CbError m)) = True"
| "isErrorCallback _ = False"

fun isErrorEvent :: "wsEvent \<Rightarrow> bool" where
  "isErrorEvent WsErrorEvent = True"
| "isErrorEvent (WsCloseEvent code) = (code \<noteq> 1000)"
| "isErrorEvent _ = False"

section \<open>Upload container (PDFUploaderContainer.tsx)\<close>

text \<open>Decimal digits of a count, for the progress message template.\<close>

fun showNat :: "nat \<Rightarrow> string" where
  "showNat n =
     (if n < 10 then [''0123456789'' ! n]
      else showNat (n div 10) @ [''0123456789'' ! (n mod 10)])"

declare showNat.simps [simp del]

text \<open>Truthiness of a \<open>string | null\<close>: \<open>null\<close> and the empty string are falsy.\<close>

fun truthy :: "string option \<Rightarrow> bool" where
  "truthy None = False"
| "truthy (Some s) = (s \<noteq> [])"

text \<open>
  The document status poller of the hook, \<open>useDocumentStatus(uploadedDocumentId || "")\<close>,
  which is \<open>usePolling\<close> with interval 2000 and \<open>enabled: !!id\<close>: its
  \<open>intervalRef.current\<close> with the document id the polled function closes over, the
  \<open>getDocumentStatus\<close> requests in flight, the next timer handle, and the effects of the
  polling hook, kept in a log of their own. The timers of this poller are named from a
  counter of their own, so that the names of the job's socket and intervals do not
  depend on how often this poller restarts.
\<close>

record documentPoller =
  intervalRef :: "(nat \<times> string) option"
  inFlight :: "string list"
  nextPollingHandle :: nat
  pollingLog :: "effect list"

text \<open>
  The effect of \<open>usePolling\<close> at a render of the hook for document id \<open>docId\<close>. Its
  dependencies include the array \<open>args\<close>, which is a new array at every render, so
  the effect runs after every render: first the cleanup the previous run returned
  (\<open>stopPolling\<close>), then the body \<^const>\<open>usePollingEffect\<close>, which fetches at once and
  registers a new interval when the id is not empty.
\<close>

definition usePollingRender :: "string option \<Rightarrow> documentPoller \<Rightarrow> documentPoller" where
  "usePollingRender docId p =
     (case docId of
        None \<Rightarrow>
          p\<lparr>intervalRef := None,
            pollingLog := pollingLog p @ fst (stopPolling (map_option fst (intervalRef p)))
                          @ fst (usePollingEffect False 2000 None (nextPollingHandle p))\<rparr>
      | Some d \<Rightarrow>
          if d = [] then
            p\<lparr>intervalRef := None,
              pollingLog := pollingLog p @ fst (stopPolling (map_option fst (intervalRef p)))
                            @ fst (usePollingEffect False 2000 None (nextPollingHandle p))\<rparr>
          else
            p\<lparr>intervalRef := Some (nextPollingHandle p, d),
              inFlight := inFlight p @ [d],
              nextPollingHandle := Suc (nextPollingHandle p),
              pollingLog := pollingLog p @ fst (stopPolling (map_option fst (intervalRef p)))
                            @ fst (usePollingEffect True 2000 None (nextPollingHandle p))\<rparr>)"

text \<open>A firing of the poller's interval \<open>t\<close>, if it is still the registered one: the
  polled function is executed.\<close>

definition pollingTick :: "nat \<Rightarrow> documentPoller \<Rightarrow> documentPoller" where
  "pollingTick t p =
     (case intervalRef p of
        None \<Rightarrow> p
      | Some (t', d) \<Rightarrow>
          if t' = t
          then p\<lparr>inFlight := inFlight p @ [d], pollingLog := pollingLog p @ [ApiExecute]\<rparr>
          else p)"

text \<open>The cleanup of the polling effect at unmount.\<close>

definition pollingUnmount :: "documentPoller \<Rightarrow> documentPoller" where
  "pollingUnmount p =
     p\<lparr>intervalRef := None,
       pollingLog := pollingLog p @ fst (stopPolling (map_option fst (intervalRef p)))\<rparr>"

text \<open>
  The hook's state (\<open>uploadedDocumentId\<close>, \<open>currentJobId\<close>, \<open>wsRef\<close>,
  \<open>pollIntervalRef\<close>) with what the browser holds for it: the sockets created, each
  with the job and document its callbacks close over; the sockets on which \<open>close()\<close>
  was called; the interval timers still registered, each with the job and document of
  its callback; the \<open>startAsyncProcessing\<close> requests and the status requests in
  flight; the next handle; the effect log of the hook's own code; and the document
  status poller. Handles start at 1, as timer handles do.
\<close>

record container =
  uploadedDocumentId :: "string option"
  currentJobId :: "string option"
  wsRef :: "nat option"
  pollIntervalRef :: "nat option"
  sockets :: "(nat \<times> string \<times> string) list"
  closedSockets :: "nat list"
  intervals :: "(nat \<times> string \<times> string) list"
  pendingStarts :: "string list"
  pendingPolls :: "(string \<times> string) list"
  nextHandle :: nat
  log :: "effect list"
  statusPoller :: documentPoller

definition initialContainer :: container where
  "initialContainer =
     \<lparr>uploadedDocumentId = None, currentJobId = None, wsRef = None, pollIntervalRef = None,
      sockets = [], closedSockets = [], intervals = [], pendingStarts = [],
      pendingPolls = [], nextHandle = 1, log = [],
      statusPoller = \<lparr>intervalRef = None, inFlight = [], nextPollingHandle = 1,
                       pollingLog = []\<rparr>\<rparr>"

definition emit :: "effect list \<Rightarrow> container \<Rightarrow> container" where
  "emit es s = s\<lparr>log := log s @ es\<rparr>"

text \<open>\<open>cleanup\<close>: closes the socket held in \<open>wsRef\<close> and clears the interval held in
  \<open>pollIntervalRef\<close>, when there is one.\<close>

definition cleanup :: "container \<Rightarrow> container" where
  "cleanup s =
     (let s1 = (case wsRef s of
                  None \<Rightarrow> s
                | Some w \<Rightarrow> s\<lparr>wsRef := None, closedSockets := closedSockets s @ [w],
                              log := log s @ [WebSocketClose w]\<rparr>)
      in case pollIntervalRef s1 of
           None \<Rightarrow> s1
         | Some t \<Rightarrow> s1\<lparr>pollIntervalRef := None,
                         intervals := filter (\<lambda>i. fst i \<noteq> t) (intervals s1),
                         log := log s1 @ [ClearInterval t]\<rparr>)"

text \<open>\<open>startStatusPolling\<close>: registers \<open>window.setInterval(callback, 3000)\<close> and stores
  the handle in \<open>pollIntervalRef\<close>, whatever that held before.\<close>

definition startStatusPolling :: "string \<Rightarrow> string \<Rightarrow> container \<Rightarrow> container" where
  "startStatusPolling jobId documentId s =
     s\<lparr>pollIntervalRef := Some (nextHandle s),
       intervals := intervals s @ [(nextHandle s, jobId, documentId)],
       nextHandle := Suc (nextHandle s),
       log := log s @ [ConsoleLog ''Starting status polling as WebSocket fallback'',
                       SetInterval (nextHandle s) 3000]\<rparr>"

definition progressUpdate :: "ProcessingProgress \<Rightarrow> UploadProgress" where
  "progressUpdate p =
     \<lparr>percentage = completion_percentage p, up_status = ''processing'',
      message = Some (current_stage p @ '' - '' @ showNat (processed_pages p) @ ''/''
                      @ showNat (total_pages p) @ '' pages'')\<rparr>"

definition completedProgress :: UploadProgress where
  "completedProgress =
     \<lparr>percentage = 100, up_status = ''complete'',
      message = Some ''Processing completed successfully!''\<rparr>"

definition failedProgress :: "string \<Rightarrow> UploadProgress" where
  "failedProgress m = \<lparr>percentage = 0, up_status = ''error'', message = Some m\<rparr>"

definition initialProgress :: UploadProgress where
  "initialProgress =
     \<lparr>percentage = 5, up_status = ''processing'',
      message = Some ''Processing started in background...''\<rparr>"

text \<open>The three callbacks handed to \<open>createProgressWebSocket\<close> for job \<open>jobId\<close> of
  document \<open>documentId\<close>.\<close>

fun onCallback :: "string \<Rightarrow> string \<Rightarrow> container \<Rightarrow> callback \<Rightarrow> container" where
  "onCallback jobId documentId s (CbProgress p) =
     emit [ConsoleLog ''Progress update'', OnUploadProgress (progressUpdate p)] s"
| "onCallback jobId documentId s (CbStatusChange status) =
     (if status = ''completed'' then
        (cleanup (emit [ConsoleLog ''Status change'', OnUploadProgress completedProgress,
                        ToastSuccess ''Document processed successfully!''] s))
        \<lparr>currentJobId := None\<rparr>
      else if status = ''failed'' then
        (cleanup (emit [ConsoleLog ''Status change'',
                        OnUploadProgress (failedProgress ''Processing failed''),
                        ToastError ''Document processing failed''] s))
        \<lparr>currentJobId := None\<rparr>
      else emit [ConsoleLog ''Status change''] s)"
| "onCallback jobId documentId s (CbError err) =
     startStatusPolling jobId documentId (emit [ConsoleError ''WebSocket error''] s)"

text \<open>The interval callback of \<open>startStatusPolling\<close> after its \<open>await\<close>: the request
  has settled.\<close>

definition onPollSettled :: "AsyncProcessingStatus settled \<Rightarrow> container \<Rightarrow> container" where
  "onPollSettled r s =
     (case r of
        Rejected err \<Rightarrow> emit [ConsoleError ''Error polling status''] s
      | Resolved status \<Rightarrow>
          (let s1 = (case job_progress status of
                       None \<Rightarrow> s
                     | Some p \<Rightarrow> emit [OnUploadProgress (progressUpdate p)] s)
           in if job_status status = ''completed'' then
                (cleanup (emit [OnUploadProgress completedProgress,
                                ToastSuccess ''Document processed successfully!''] s1))
                \<lparr>currentJobId := None\<rparr>
              else if job_status status = ''failed'' then
                (cleanup (emit [OnUploadProgress
                                  (failedProgress
                                     (orString (job_error_message status) ''Processing failed'')),
                                ToastError
                                  (orString (job_error_message status)
                                     ''Document processing failed'')] s1))
                \<lparr>currentJobId := None\<rparr>
              else s1))"

text \<open>The body of the effect that starts processing; it is gated on
  \<open>uploadedDocumentId && !currentJobId\<close>.\<close>

definition processingEffect :: "container \<Rightarrow> container" where
  "processingEffect s =
     (case uploadedDocumentId s of
        None \<Rightarrow> s
      | Some d \<Rightarrow>
          if d = [] then s
          else if truthy (currentJobId s) then s
          else s\<lparr>pendingStarts := pendingStarts s @ [d],
                 log := log s @ [ConsoleLog ''Starting async processing for uploaded document'',
                                 PostStartAsyncProcessing d]\<rparr>)"

text \<open>React runs the effect after a render in which \<open>uploadedDocumentId\<close> or
  \<open>currentJobId\<close> changed (the other dependencies are stable callbacks).\<close>

definition rerender :: "container \<Rightarrow> container \<Rightarrow> container" where
  "rerender old new =
     (if uploadedDocumentId new = uploadedDocumentId old
         \<and> currentJobId new = currentJobId old
      then new else processingEffect new)"

datatype event =
    HandleFileUpload bool
  | UploadSuccess string
  | UploadFailed string
  | StartResolved string
  | StartRejected
  | Ws nat wsEvent
  | IntervalTick nat
  | PollSettled "AsyncProcessingStatus settled"
  | DocIntervalTick nat
  | DocPollSettled DocumentStatus
  | Render
  | Unmount

text \<open>
  One event and its handler. \<open>HandleFileUpload b\<close> is a call of \<open>handleFileUpload\<close>
  with \<open>b\<close> the value of \<open>file.type.includes("pdf")\<close>; \<open>UploadSuccess d\<close> the upload
  hook's \<open>onSuccess\<close> with document id \<open>d\<close>; \<open>StartResolved j\<close> and \<open>StartRejected\<close>
  the settling of the oldest \<open>startAsyncProcessing\<close> request in flight; \<open>Ws h ev\<close> an
  event on socket \<open>h\<close> (a socket on which \<open>close()\<close> was called receives no more
  messages); \<open>IntervalTick t\<close> a firing of the registered interval \<open>t\<close>, which issues a
  status request; \<open>PollSettled r\<close> the settling of the oldest status request in flight.
  \<open>UploadFailed m\<close> is the upload hook's \<open>onError\<close>, with \<open>m\<close> the display message of
  the error; \<open>DocIntervalTick t\<close> a firing of the document poller's interval;
  \<open>DocPollSettled st\<close> the resolution of the oldest \<open>getDocumentStatus\<close> request in
  flight with the value \<open>st\<close> (it never rejects), which runs the poller's \<open>onSuccess\<close>;
  \<open>Render\<close> a render of the hook for a reason outside this state (the loading flags of
  the request hooks, the parent component); \<open>Unmount\<close> the unmounting of the hook,
  which runs \<open>cleanup\<close> and the cleanup of the polling effect.
\<close>

fun handle :: "container \<Rightarrow> event \<Rightarrow> container" where
  "handle s (HandleFileUpload isPdf) =
     (if isPdf
      then emit [OnUploadProgress
                   \<lparr>percentage = 0, up_status = ''uploading'',
                    message = Some ''Starting upload...''\<rparr>,
                 UploadDocumentExecute] s
      else emit [ToastError ''Please upload a PDF file''] s)"
| "handle s (UploadSuccess d) =
     (emit [ToastSuccess ''Document uploaded successfully!'', OnDocumentUploaded d] s)
     \<lparr>uploadedDocumentId := Some d\<rparr>"
| "handle s (StartResolved jobId) =
     (case pendingStarts s of
        [] \<Rightarrow> s
      | d # ps \<Rightarrow>
          s\<lparr>pendingStarts := ps, currentJobId := Some jobId, wsRef := Some (nextHandle s),
            sockets := sockets s @ [(nextHandle s, jobId, d)],
            nextHandle := Suc (nextHandle s),
            log := log s @ [OnUploadProgress initialProgress,
                            CreateProgressWebSocket (nextHandle s) jobId]\<rparr>)"
| "handle s StartRejected =
     (case pendingStarts s of
        [] \<Rightarrow> s
      | d # ps \<Rightarrow>
          emit [ConsoleError ''Failed to start async processing'',
                ToastError ''Failed to start document processing'',
                OnUploadProgress (failedProgress ''Failed to start processing'')]
            (s\<lparr>pendingStarts := ps\<rparr>))"
| "handle s (Ws h (WsMessage m)) =
     (case map_of (sockets s) h of
        None \<Rightarrow> s
      | Some (jobId, d) \<Rightarrow>
          if h \<in> set (closedSockets s) then s
          else foldl (onCallback jobId d) s (channelCallbacks (WsMessage m)))"
| "handle s (Ws h ev) =
     (case map_of (sockets s) h of
        None \<Rightarrow> s
      | Some (jobId, d) \<Rightarrow> foldl (onCallback jobId d) s (channelCallbacks ev))"
| "handle s (IntervalTick t) =
     (case map_of (intervals s) t of
        None \<Rightarrow> s
      | Some (jobId, d) \<Rightarrow>
          s\<lparr>pendingPolls := pendingPolls s @ [(jobId, d)],
            log := log s @ [GetAsyncProcessingStatus d jobId]\<rparr>)"
| "handle s (PollSettled r) =
     (case pendingPolls s of
        [] \<Rightarrow> s
      | p # ps \<Rightarrow> onPollSettled r (s\<lparr>pendingPolls := ps\<rparr>))"
| "handle s (UploadFailed m) =
     emit [ToastError m, OnUploadProgress (failedProgress m)] s"
| "handle s (DocIntervalTick t) = s\<lparr>statusPoller := pollingTick t (statusPoller s)\<rparr>"
| "handle s (DocPollSettled st) =
     (case inFlight (statusPoller s) of
        [] \<Rightarrow> s
      | d # ds \<Rightarrow>
          emit [OnUploadProgress
                  \<lparr>percentage = 0,
                   up_status =
                     (if statusString (ds_status st) = ''processed'' then ''complete''
                      else if statusString (ds_status st) = ''error'' then ''error''
                      else ''processing''),
                   message = None\<rparr>]
            (s\<lparr>statusPoller := (statusPoller s)\<lparr>inFlight := ds\<rparr>\<rparr>))"
| "handle s Render = s"
| "handle s Unmount = (cleanup s)\<lparr>statusPoller := pollingUnmount (statusPoller s)\<rparr>"

text \<open>
  Whether handling event \<open>e\<close> ends in a render of the hook: when
  \<open>uploadedDocumentId\<close> or \<open>currentJobId\<close> changed, when a status response was stored
  (\<open>setData\<close>), and at \<open>Render\<close>.
\<close>

definition renders :: "container \<Rightarrow> event \<Rightarrow> container \<Rightarrow> bool" where
  "renders old e new =
     (if uploadedDocumentId new = uploadedDocumentId old
         \<and> currentJobId new = currentJobId old
      then (case e of
              Render \<Rightarrow> True
            | DocPollSettled st \<Rightarrow> inFlight (statusPoller old) \<noteq> []
            | _ \<Rightarrow> False)
      else True)"

text \<open>One event: its handler, the processing effect when its dependencies changed, and
  at a render the effect of the document status poller, which is declared after it.\<close>

definition step :: "container \<Rightarrow> event \<Rightarrow> container" where
  "step s e =
     (if renders s e (rerender s (handle s e))
      then (rerender s (handle s e))
           \<lparr>statusPoller :=
              usePollingRender (uploadedDocumentId (rerender s (handle s e)))
                (statusPoller (rerender s (handle s e)))\<rparr>
      else rerender s (handle s e))"

definition run :: "event list \<Rightarrow> container" where
  "run evs = foldl step initialContainer evs"

fun isTerminalNotification :: "effect \<Rightarrow> bool" where
  "isTerminalNotification (OnUploadProgress p) =
     (up_status p = ''complete'' \<or> up_status p = ''error'')"
| "isTerminalNotification _ = False"

fun isTerminalToast :: "effect \<Rightarrow> bool" where
  "isTerminalToast (ToastSuccess m) = (m = ''Document processed successfully!'')"
| "isTerminalToast (ToastError m) = True"
| "isTerminalToast _ = False"

fun isInvalidation :: "effect \<Rightarrow> bool" where
  "isInvalidation (InvalidateQueries k) = True"
| "isInvalidation (InvalidateQueriesAfter ms k) = True"
| "isInvalidation _ = False"

fun isStatusRequest :: "effect \<Rightarrow> bool" where
  "isStatusRequest (GetAsyncProcessingStatus d j) = True"
| "isStatusRequest _ = False"

definition completedStatus :: AsyncProcessingStatus where
  "completedStatus =
     \<lparr>job_status = ''completed'', job_error_message = None, job_progress = None\<rparr>"

section \<open>Notions used in the statements\<close>

text \<open>A settled status request that ends the job polling before the bound: a response
  whose status is \<open>completed\<close> or \<open>failed\<close>.\<close>

fun terminalResult :: "AsyncProcessingStatus settled \<Rightarrow> bool" where
  "terminalResult (Resolved jobStatus) =
     (job_status jobStatus = ''completed'' \<or> job_status jobStatus = ''failed'')"
| "terminalResult (Rejected err) = False"

text \<open>The toast of the attempt that exhausts the bound, by how that attempt settled.\<close>

fun exhaustedToast :: "AsyncProcessingStatus settled \<Rightarrow> string" where
  "exhaustedToast (Resolved jobStatus) = timedOutToast"
| "exhaustedToast (Rejected err) = monitorToast"

fun isPollTimer :: "effect \<Rightarrow> bool" where
  "isPollTimer (SetTimeoutPoll ms) = True"
| "isPollTimer _ = False"

definition processingStatus :: AsyncProcessingStatus where
  "processingStatus =
     \<lparr>job_status = ''processing'', job_error_message = None, job_progress = None\<rparr>"

definition failedStatus :: AsyncProcessingStatus where
  "failedStatus =
     \<lparr>job_status = ''failed'', job_error_message = Some ''OCR engine crashed'',
      job_progress = None\<rparr>"

text \<open>Upload of \<open>doc_1\<close>, job \<open>job_1\<close> started and its socket (handle 1) created, then a
  transport error on the socket: the fallback to polling.\<close>

definition fallbackTrace :: "event list" where
  "fallbackTrace = [UploadSuccess ''doc_1'', StartResolved ''job_1'', Ws 1 WsErrorEvent]"

text \<open>After the fallback, the interval (handle 2) fires and its request is in flight
  when the channel delivers \<open>completed\<close>; then the request settles with \<open>completed\<close>.\<close>

definition raceTrace :: "event list" where
  "raceTrace =
     fallbackTrace
     @ [IntervalTick 2, Ws 1 (WsMessage (JobStatus ''completed'')),
        PollSettled (Resolved completedStatus)]"

text \<open>No transport error: the channel delivers \<open>completed\<close>, whose handler closes the
  socket; the socket's close event then carries a code other than 1000 (1005, no status
  code in the closing frame), the interval registered by the fallback fires, and its
  request settles with \<open>completed\<close>.\<close>

definition closeRaceTrace :: "event list" where
  "closeRaceTrace =
     [UploadSuccess ''doc_1'', StartResolved ''job_1'',
      Ws 1 (WsMessage (JobStatus ''completed'')), Ws 1 (WsCloseEvent 1005),
      IntervalTick 2, PollSettled (Resolved completedStatus)]"

text \<open>Upload of \<open>doc_1\<close>, job \<open>job_1\<close> started, and its socket (handle 1) open: the job
  is tracked through the channel.\<close>

definition trackingTrace :: "event list" where
  "trackingTrace = [UploadSuccess ''doc_1'', StartResolved ''job_1'', Ws 1 WsOpen]"

text \<open>The connection of the socket fails instead: the browser delivers an error event
  and then a close event with code 1006, and each of the two calls \<open>onError\<close>, so two
  intervals (handles 2 and 3) poll \<open>job_1\<close> and \<open>pollIntervalRef\<close> holds the second.\<close>

definition pollingTrace :: "event list" where
  "pollingTrace =
     [UploadSuccess ''doc_1'', StartResolved ''job_1'', Ws 1 WsErrorEvent,
      Ws 1 (WsCloseEvent 1006)]"

text \<open>While \<open>job_1\<close> is tracked, a file is uploaded again and the upload answers with
  document id \<open>d\<close>: the id of the document whose job is running, or a new one. In the
  second trace the interval held in \<open>pollIntervalRef\<close> fires afterwards.\<close>

definition reuploadTrace :: "string \<Rightarrow> event list" where
  "reuploadTrace d = trackingTrace @ [HandleFileUpload True, UploadSuccess d]"

definition reuploadPollingTrace :: "string \<Rightarrow> event list" where
  "reuploadPollingTrace d =
     pollingTrace @ [HandleFileUpload True, UploadSuccess d, IntervalTick 3]"

text \<open>The effects that tear job tracking down: closing a socket and clearing an
  interval.\<close>

fun isTeardown :: "effect \<Rightarrow> bool" where
  "isTeardown (WebSocketClose h) = True"
| "isTeardown (ClearInterval t) = True"
| "isTeardown _ = False"

text \<open>A socket opens, answers the first ping, and then stays silent for three more
  ping periods.\<close>

definition silentTrace :: "wsEvent list" where
  "silentTrace = [WsOpen, PingTimer, WsMessage Pong, PingTimer, PingTimer, PingTimer]"

text \<open>The terminal notifications and the cache invalidation requests a container has
  produced so far.\<close>

definition terminalNotifications :: "container \<Rightarrow> effect list" where
  "terminalNotifications s = filter isTerminalNotification (log s)"

definition invalidations :: "container \<Rightarrow> effect list" where
  "invalidations s = filter isInvalidation (log s)"

section \<open>Stage to progress: results\<close>

lemma toLowerChar_not_upper: "toLowerChar c \<notin> fst ` set upperToLower"
  by (simp add: toLowerChar_def upperToLower_def)

lemma toLowerCase_no_upper:
  "toLowerCase s = k \<Longrightarrow> list_all (\<lambda>c. c \<notin> fst ` set upperToLower) k"
  using toLowerChar_not_upper by (force simp: toLowerCase_def list_all_iff)

text \<open>A lower-cased key reaches only two inherited properties: every other property
  name of \<open>Object.prototype\<close> has an upper-case letter.\<close>

lemma toLowerCase_inherited:
  assumes "toLowerCase s \<noteq> ''constructor''" and "toLowerCase s \<noteq> ''__proto__''"
  shows "map_of objectPrototype (toLowerCase s) = None"
proof -
  have "toLowerCase s \<noteq> k" if "\<not> list_all (\<lambda>c. c \<notin> fst ` set upperToLower) k" for k
    using that toLowerCase_no_upper by blast
  then have "toLowerCase s \<noteq> ''hasOwnProperty''" "toLowerCase s \<noteq> ''isPrototypeOf''"
    "toLowerCase s \<noteq> ''propertyIsEnumerable''" "toLowerCase s \<noteq> ''toLocaleString''"
    "toLowerCase s \<noteq> ''toString''" "toLowerCase s \<noteq> ''valueOf''"
    "toLowerCase s \<noteq> ''__defineGetter__''" "toLowerCase s \<noteq> ''__defineSetter__''"
    "toLowerCase s \<noteq> ''__lookupGetter__''" "toLowerCase s \<noteq> ''__lookupSetter__''"
    by (simp_all add: upperToLower_def)
  with assms show ?thesis
    by (simp add: objectPrototype_def)
qed

text \<open>Away from those two keys the result is one of the eight numbers, and 0 for a
  stage that is not in the table.\<close>

lemma getProcessingProgress_range:
  assumes "toLowerCase stage \<noteq> ''constructor''" and "toLowerCase stage \<noteq> ''__proto__''"
  shows "getProcessingProgress stage \<in> JNumber ` {0, 10, 20, 30, 50, 70, 85, 100}"
  using toLowerCase_inherited [OF assms]
  by (simp add: getProcessingProgress_def stageProgressGet_def stageProgress_def)

lemma getProcessingProgress_unknown:
  assumes "toLowerCase stage \<noteq> ''constructor''" and "toLowerCase stage \<noteq> ''__proto__''"
    and "map_of stageProgress (toLowerCase stage) = None"
  shows "getProcessingProgress stage = JNumber 0"
  using toLowerCase_inherited [OF assms(1,2)] assms(3)
  by (simp add: getProcessingProgress_def stageProgressGet_def)

text \<open>The service's private copy computes the same value.\<close>

lemma calculateProgressPercentage_eq:
  "calculateProgressPercentage (Some stage) = getProcessingProgress stage"
  "calculateProgressPercentage None = JNumber 0"
  by (simp_all add: calculateProgressPercentage_def getProcessingProgress_def
      stageProgressGet_def stageProgress_def objectPrototype_def toLowerCase_def)

lemma getProcessingProgress_failed_stages:
  "getProcessingProgress ''parsing_failed'' = JNumber 0
   \<and> getProcessingProgress ''error'' = JNumber 0
   \<and> getProcessingProgress ''Indexing'' = JNumber 85"
  by (simp add: getProcessingProgress_def stageProgressGet_def stageProgress_def
      toLowerCase_def toLowerChar_def upperToLower_def)

text \<open>
  Claim C10 (every stage string gives a number in \<open>{0, 10, 20, 30, 50, 70, 85, 100}\<close>,
  unknown stages give 0). The stage \<open>constructor\<close> is not an own property of the
  table, so the read finds \<open>Object.prototype.constructor\<close>, a function, which is truthy:
  \<open>|| 0\<close> does not apply and the function is returned, in \<open>getProcessingProgress\<close> and
  in \<open>calculateProgressPercentage\<close> alike. The stage \<open>__proto__\<close> gives an object.
\<close>

theorem getProcessingProgress_constructor:
  "getProcessingProgress ''constructor'' = JFunction ''Object''
   \<and> calculateProgressPercentage (Some ''Constructor'') = JFunction ''Object''
   \<and> getProcessingProgress ''__proto__'' = JObject ''Object.prototype''"
  by (simp add: getProcessingProgress_def calculateProgressPercentage_def stageProgressGet_def
      stageProgress_def objectPrototype_def toLowerCase_def toLowerChar_def upperToLower_def)

section \<open>Status mapping: results\<close>

text \<open>\<open>mapApiStatusToUIStatus\<close> sends every string outside \<open>BACKEND_STATUSES\<close> to
  \<open>error\<close> and warns.\<close>

lemma mapApiStatusToUIStatus_fail_closed:
  "\<not> isBackendStatus status \<Longrightarrow>
     mapApiStatusToUIStatus status = (UI_error, [ConsoleWarn ''Unhandled document status:'' status])"
  by (simp add: isBackendStatus_def BACKEND_STATUSES_def mapApiStatusToUIStatus_def)

text \<open>The switch of \<open>getDocumentStatus\<close> sends everything but three strings to
  \<open>processing\<close>.\<close>

lemma frontendStatus_default:
  "status \<noteq> ''processed'' \<Longrightarrow> status \<noteq> ''completed'' \<Longrightarrow> status \<noteq> ''error'' \<Longrightarrow>
     frontendStatus status = UI_processing"
  by (simp add: frontendStatus_def)

text \<open>
  Claim C1 (the status mapping is fail-closed: an unknown backend status becomes
  \<open>error\<close>, never \<open>processing\<close>). \<open>mapApiStatusToUIStatus\<close> is, by
  \<open>mapApiStatusToUIStatus_fail_closed\<close>; the switch in \<open>getDocumentStatus\<close> is not:
  a response whose status is \<open>foobar\<close> is reported as \<open>processing\<close>, on which
  \<open>refetchInterval\<close> keeps polling every 2000 ms.
\<close>

theorem getDocumentStatus_unknown_status:
  "getDocumentStatus ''doc_1''
     (Resolved \<lparr>resp_status = ''foobar'', resp_processing_stage = None, resp_page_count = None,
                resp_chunk_count = None, resp_processing_error = None\<rparr>)
   = Resolved \<lparr>ds_status = UI_processing, ds_processing_stage = Some ''uploaded'',
               ds_page_count = None, ds_chunk_count = None, ds_processing_time_ms = None,
               ds_progress_percentage = JNumber 10, ds_error_message = None\<rparr>
   \<and> fst (refetchInterval ''doc_1'' (Some (statusString UI_processing))) = Some 2000"
  by (simp add: getDocumentStatus_def frontendStatus_def calculateProgressPercentage_def
      stageProgressGet_def stageProgress_def toLowerCase_def toLowerChar_def upperToLower_def
      refetchInterval_def)

text \<open>
  Claim C9: \<open>getDocumentStatus\<close> never rejects. However the request settles, the
  promise resolves; when the request throws an \<open>Error\<close> with message \<open>m\<close> the value has
  status \<open>error\<close>, progress 0 and error message \<open>m\<close>, and for a thrown value that is
  not an \<open>Error\<close> the message is \<open>Unknown error\<close>.
\<close>

theorem getDocumentStatus_never_rejects:
  "(\<exists>ds. getDocumentStatus documentId request = Resolved ds)
   \<and> getDocumentStatus documentId (Rejected (ErrorInstance m))
       = Resolved \<lparr>ds_status = UI_error, ds_processing_stage = None, ds_page_count = None,
                   ds_chunk_count = None, ds_processing_time_ms = None,
                   ds_progress_percentage = JNumber 0, ds_error_message = Some m\<rparr>
   \<and> getDocumentStatus documentId (Rejected NotAnError)
       = Resolved \<lparr>ds_status = UI_error, ds_processing_stage = None, ds_page_count = None,
                   ds_chunk_count = None, ds_processing_time_ms = None,
                   ds_progress_percentage = JNumber 0, ds_error_message = Some ''Unknown error''\<rparr>"
  by (cases request) (simp_all add: getDocumentStatus_def)

text \<open>An instance of the result on \<open>getDocumentStatus\<close>: a network error.\<close>

theorem getDocumentStatus_never_rejects_witness:
  "getDocumentStatus ''doc_1'' (Rejected (ErrorInstance ''Network Error''))
     = Resolved \<lparr>ds_status = UI_error, ds_processing_stage = None, ds_page_count = None,
                 ds_chunk_count = None, ds_processing_time_ms = None,
                 ds_progress_percentage = JNumber 0, ds_error_message = Some ''Network Error''\<rparr>"
  using getDocumentStatus_never_rejects [of "''doc_1''" "Rejected NotAnError" "''Network Error''"]
  by blast



text \<open>The mapper is fail-closed as well: a string that is in none of the lists and
  contains neither \<open>error\<close> nor \<open>fail\<close> is warned about and becomes \<open>error\<close>.\<close>

lemma adaptDocumentStatus_foobar:
  "adaptDocumentStatus ''foobar''
     = (UI_error,
        [ConsoleLog ''Adapting document status from backend'',
         ConsoleWarn ''Unknown status, defaulting to error:'' ''foobar''])"
  by (simp add: adaptDocumentStatus_def adaptDocumentStatusWith_def toLowerCase_def
      toLowerChar_def upperToLower_def)

section \<open>Job status polling: results\<close>

lemma failedToast_distinct:
  "failedToast em \<noteq> timedOutToast" "failedToast em \<noteq> monitorToast"
  by (simp_all add: failedToast_def timedOutToast_def monitorToast_def)

text \<open>
  From any attempt count below the bound, a run whose next results up to the bound are
  all non-terminal issues exactly the remaining requests and stops on the last of them
  with status \<open>error\<close>, the toast of \<open>exhaustedToast\<close> and no invalidation.
\<close>

lemma poll_exhausts:
  assumes "attempts < maxAttempts"
    and "maxAttempts - attempts \<le> length rs"
    and "list_all (\<lambda>r. \<not> terminalResult r) (take (maxAttempts - attempts) rs)"
  shows "snd (poll d j attempts rs)
     \<and> length (filter isStatusRequest (fst (poll d j attempts rs))) = maxAttempts - attempts
     \<and> SetQueryStatus d UI_error \<in> set (fst (poll d j attempts rs))
     \<and> last (fst (poll d j attempts rs))
          = ToastError (exhaustedToast (rs ! (maxAttempts - Suc attempts)))
     \<and> filter isInvalidation (fst (poll d j attempts rs)) = []
     \<and> filter isPollTimer (fst (poll d j attempts rs))
          = replicate (maxAttempts - Suc attempts) (SetTimeoutPoll 2000)"
  using assms
proof (induction d j attempts rs rule: poll.induct)
  case (1 d j attempts)
  then show ?case by simp
next
  case (2 d j attempts jobStatus rs)
  have sub: "maxAttempts - attempts = Suc (maxAttempts - Suc attempts)"
    using 2(2) by simp
  from 2(4) have nt: "job_status jobStatus \<noteq> ''completed''" "job_status jobStatus \<noteq> ''failed''"
    by (simp_all add: sub)
  show ?case
  proof (cases "Suc attempts \<ge> maxAttempts")
    case True
    with nt sub show ?thesis by simp
  next
    case False
    then have lt: "Suc attempts < maxAttempts" by simp
    then have sub2: "maxAttempts - Suc attempts = Suc (maxAttempts - Suc (Suc attempts))"
      by simp
    have ih: "snd (poll d j (Suc attempts) rs)
     \<and> length (filter isStatusRequest (fst (poll d j (Suc attempts) rs))) = maxAttempts - Suc attempts
     \<and> SetQueryStatus d UI_error \<in> set (fst (poll d j (Suc attempts) rs))
     \<and> last (fst (poll d j (Suc attempts) rs))
          = ToastError (exhaustedToast (rs ! (maxAttempts - Suc (Suc attempts))))
     \<and> filter isInvalidation (fst (poll d j (Suc attempts) rs)) = []
     \<and> filter isPollTimer (fst (poll d j (Suc attempts) rs))
          = replicate (maxAttempts - Suc (Suc attempts)) (SetTimeoutPoll 2000)"
      using 2(1) [OF nt(1) nt(2) _ lt] 2(3,4) False by (simp add: sub)
    obtain es st where p: "poll d j (Suc attempts) rs = (es, st)"
      by (cases "poll d j (Suc attempts) rs")
    from ih p have "es \<noteq> []" by auto
    with ih p nt False show ?thesis
      by (simp add: sub sub2)
  qed
next
  case (3 d j attempts err rs)
  have sub: "maxAttempts - attempts = Suc (maxAttempts - Suc attempts)"
    using 3(2) by simp
  show ?case
  proof (cases "Suc attempts \<ge> maxAttempts")
    case True
    with sub show ?thesis by simp
  next
    case False
    then have lt: "Suc attempts < maxAttempts" by simp
    then have sub2: "maxAttempts - Suc attempts = Suc (maxAttempts - Suc (Suc attempts))"
      by simp
    have ih: "snd (poll d j (Suc attempts) rs)
     \<and> length (filter isStatusRequest (fst (poll d j (Suc attempts) rs))) = maxAttempts - Suc attempts
     \<and> SetQueryStatus d UI_error \<in> set (fst (poll d j (Suc attempts) rs))
     \<and> last (fst (poll d j (Suc attempts) rs))
          = ToastError (exhaustedToast (rs ! (maxAttempts - Suc (Suc attempts))))
     \<and> filter isInvalidation (fst (poll d j (Suc attempts) rs)) = []
     \<and> filter isPollTimer (fst (poll d j (Suc attempts) rs))
          = replicate (maxAttempts - Suc (Suc attempts)) (SetTimeoutPoll 2000)"
      using 3(1) [OF _ lt] 3(3,4) False by (simp add: sub)
    obtain es st where p: "poll d j (Suc attempts) rs = (es, st)"
      by (cases "poll d j (Suc attempts) rs")
    from ih p have "es \<noteq> []" by auto
    with ih p False show ?thesis
      by (simp add: sub sub2)
  qed
qed

text \<open>
  A \<open>failed\<close> response that arrives within the bound, after non-terminal results only,
  ends the run with status \<open>error\<close> and the failure toast, which carries the backend's
  message.
\<close>

lemma poll_failed:
  assumes "attempts + length pre < maxAttempts"
    and "list_all (\<lambda>r. \<not> terminalResult r) pre"
    and "job_status js = ''failed''"
  shows "snd (poll d j attempts (pre @ Resolved js # post))
     \<and> last (fst (poll d j attempts (pre @ Resolved js # post)))
          = ToastError (failedToast (job_error_message js))
     \<and> SetQueryStatus d UI_error \<in> set (fst (poll d j attempts (pre @ Resolved js # post)))"
  using assms
proof (induction pre arbitrary: attempts)
  case Nil
  then show ?case by simp
next
  case (Cons r pre)
  from Cons.prems have lt: "\<not> maxAttempts \<le> Suc attempts" by simp
  from Cons.prems have ih: "snd (poll d j (Suc attempts) (pre @ Resolved js # post))
     \<and> last (fst (poll d j (Suc attempts) (pre @ Resolved js # post)))
          = ToastError (failedToast (job_error_message js))
     \<and> SetQueryStatus d UI_error \<in> set (fst (poll d j (Suc attempts) (pre @ Resolved js # post)))"
    using Cons.IH [of "Suc attempts"] by simp
  obtain es st where p: "poll d j (Suc attempts) (pre @ Resolved js # post) = (es, st)"
    by (cases "poll d j (Suc attempts) (pre @ Resolved js # post)")
  from ih p have ne: "es \<noteq> []" by auto
  show ?case
  proof (cases r)
    case (Resolved x)
    with Cons.prems have "job_status x \<noteq> ''completed''" "job_status x \<noteq> ''failed''"
      by simp_all
    with Resolved ih p ne lt show ?thesis by simp
  next
    case (Rejected err)
    with ih p ne lt show ?thesis by simp
  qed
qed

text \<open>
  Claim C5: a polling run that reaches the bound of 150 attempts without a
  \<open>completed\<close> or \<open>failed\<close> response stops there: it has issued exactly 150 requests,
  each non-final one followed by \<open>setTimeout(poll, 2000)\<close>, marks the document
  \<open>error\<close>, and its last effect is the time-out toast: the timed-out message when the
  150th request returned a status, and the monitoring message when the 150th request
  threw. A run in which the backend reports \<open>failed\<close> within the bound ends instead
  with the failure toast built from the backend's error message, and the two toasts
  differ.
\<close>

theorem pollAsyncJobStatus_timeout:
  assumes "maxAttempts \<le> length rs"
    and "list_all (\<lambda>r. \<not> terminalResult r) (take maxAttempts rs)"
    and "length pre < maxAttempts"
    and "list_all (\<lambda>r. \<not> terminalResult r) pre"
    and "job_status js = ''failed''"
  shows "snd (pollAsyncJobStatus d j rs)
     \<and> length (filter isStatusRequest (fst (pollAsyncJobStatus d j rs))) = 150
     \<and> filter isPollTimer (fst (pollAsyncJobStatus d j rs)) = replicate 149 (SetTimeoutPoll 2000)
     \<and> SetQueryStatus d UI_error \<in> set (fst (pollAsyncJobStatus d j rs))
     \<and> last (fst (pollAsyncJobStatus d j rs)) = ToastError (exhaustedToast (rs ! 149))
     \<and> exhaustedToast (rs ! 149) \<noteq> failedToast em
     \<and> snd (pollAsyncJobStatus d j (pre @ Resolved js # post))
     \<and> last (fst (pollAsyncJobStatus d j (pre @ Resolved js # post)))
          = ToastError (failedToast (job_error_message js))
     \<and> SetQueryStatus d UI_error \<in> set (fst (pollAsyncJobStatus d j (pre @ Resolved js # post)))
     \<and> last (fst (pollAsyncJobStatus d j rs))
          \<noteq> last (fst (pollAsyncJobStatus d j (pre @ Resolved js # post)))"
proof -
  have ne: "exhaustedToast r \<noteq> failedToast m" for r m
    using failedToast_distinct [of m] by (cases r) auto
  have a: "snd (pollAsyncJobStatus d j rs)
     \<and> length (filter isStatusRequest (fst (pollAsyncJobStatus d j rs))) = 150
     \<and> filter isPollTimer (fst (pollAsyncJobStatus d j rs)) = replicate 149 (SetTimeoutPoll 2000)
     \<and> SetQueryStatus d UI_error \<in> set (fst (pollAsyncJobStatus d j rs))
     \<and> last (fst (pollAsyncJobStatus d j rs)) = ToastError (exhaustedToast (rs ! 149))"
    using poll_exhausts [of 0 rs d j] assms(1,2)
    by (simp add: pollAsyncJobStatus_def maxAttempts_def)
  have b: "snd (pollAsyncJobStatus d j (pre @ Resolved js # post))
     \<and> last (fst (pollAsyncJobStatus d j (pre @ Resolved js # post)))
          = ToastError (failedToast (job_error_message js))
     \<and> SetQueryStatus d UI_error \<in> set (fst (pollAsyncJobStatus d j (pre @ Resolved js # post)))"
    using poll_failed [of 0 pre js d j post] assms(3,4,5)
    by (simp add: pollAsyncJobStatus_def)
  from a b ne [of "rs ! 149" em] ne [of "rs ! 149" "job_error_message js"]
  show ?thesis by simp
qed

theorem pollAsyncJobStatus_timeout_witness:
  "snd (pollAsyncJobStatus ''doc_1'' ''job_1'' (replicate 150 (Resolved processingStatus)))
   \<and> last (fst (pollAsyncJobStatus ''doc_1'' ''job_1'' (replicate 150 (Resolved processingStatus))))
       = ToastError ''Document processing timed out - please try again''
   \<and> last (fst (pollAsyncJobStatus ''doc_1'' ''job_1''
               (replicate 3 (Resolved processingStatus) @ [Resolved failedStatus])))
       = ToastError ''Document processing failed: OCR engine crashed''"
proof -
  let ?rs = "replicate 150 (Resolved processingStatus)"
  let ?pre = "replicate 3 (Resolved processingStatus)"
  have h1: "maxAttempts \<le> length ?rs"
    by (simp add: maxAttempts_def)
  have h2: "list_all (\<lambda>r. \<not> terminalResult r) (take maxAttempts ?rs)"
    by (simp add: list_all_iff processingStatus_def)
  have h3: "length ?pre < maxAttempts"
    by (simp add: maxAttempts_def)
  have h4: "list_all (\<lambda>r. \<not> terminalResult r) ?pre"
    by (simp add: list_all_iff processingStatus_def)
  have h5: "job_status failedStatus = ''failed''"
    by (simp add: failedStatus_def)
  have idx: "exhaustedToast (?rs ! 149) = ''Document processing timed out - please try again''"
    by (simp add: timedOutToast_def)
  have msg: "failedToast (job_error_message failedStatus)
      = ''Document processing failed: OCR engine crashed''"
    by (simp add: failedToast_def failedStatus_def)
  note t = pollAsyncJobStatus_timeout [OF h1 h2 h3 h4 h5, of "''doc_1''" "''job_1''" None "[]"]
  from t have a: "snd (pollAsyncJobStatus ''doc_1'' ''job_1'' ?rs)"
    by (rule conjunct1)
  from t have b: "last (fst (pollAsyncJobStatus ''doc_1'' ''job_1'' ?rs))
      = ToastError (exhaustedToast (?rs ! 149))"
    by blast
  from t have c: "last (fst (pollAsyncJobStatus ''doc_1'' ''job_1'' (?pre @ [Resolved failedStatus])))
      = ToastError (failedToast (job_error_message failedStatus))"
    by blast
  from a b c show ?thesis
    unfolding idx msg by blast
qed

text \<open>Only the \<open>completed\<close> branch of \<open>poll\<close> requests invalidation: the two keys, once
  each; a run that ends any other way requests none.\<close>

lemma poll_invalidations:
  "filter isInvalidation (fst (poll d j attempts rs))
     = (if ToastSuccess completedToast \<in> set (fst (poll d j attempts rs))
        then [InvalidateQueries QK_documents, InvalidateQueries (QK_document d)] else [])"
  by (induction d j attempts rs rule: poll.induct) (auto split: prod.splits)

text \<open>
  Claim C6 (on every terminal transition, completed, failed or timed out, the documents
  list and the document's detail entry are invalidated exactly once). The \<open>completed\<close>
  branch of \<open>poll\<close> does so, and so does the terminal handling of
  \<open>useDocumentStatusQuery\<close> for the statuses \<open>error\<close> and \<open>failed\<close>; the \<open>failed\<close>
  branch of \<open>poll\<close> does not: it writes the status \<open>error\<close>, shows the toast and stops.
\<close>

theorem pollAsyncJobStatus_failed_no_invalidation:
  "pollAsyncJobStatus ''doc_1'' ''job_1'' [Resolved failedStatus]
     = ([GetAsyncProcessingStatus ''doc_1'' ''job_1'', SetQueryStatus ''doc_1'' UI_error,
         ToastError ''Document processing failed: OCR engine crashed''], True)
   \<and> snd (refetchInterval ''doc_1'' (Some ''error''))
       = [ConsoleLog ''Stopping polling for terminal status'',
          InvalidateQueriesAfter 100 QK_documents,
          InvalidateQueriesAfter 100 (QK_document ''doc_1'')]"
  by (simp add: pollAsyncJobStatus_def failedStatus_def failedToast_def refetchInterval_def)

text \<open>\<open>poll\<close> and \<open>usePolling\<close> issue their first request at once;
  \<open>startStatusPolling\<close> issues none.\<close>

lemma poll_first_request: "hd (fst (poll d j attempts rs)) = GetAsyncProcessingStatus d j"
  by (induction d j attempts rs rule: poll.induct) (auto split: prod.splits)

lemma usePolling_first_request:
  "hd (fst (usePollingEffect True interval ref h)) = ApiExecute"
  by (simp add: usePollingEffect_def)

lemma startStatusPolling_no_request:
  "filter isStatusRequest (log (startStatusPolling jobId d s)) = filter isStatusRequest (log s)
   \<and> pendingPolls (startStatusPolling jobId d s) = pendingPolls s"
  by (simp add: startStatusPolling_def)

section \<open>Progress channel: results\<close>

lemma channelCallbacks_message:
  "filter (isErrorCallback \<circ> Invoke) (channelCallbacks (WsMessage m)) = []"
  by (cases "WsMessage m" rule: channelCallbacks.cases) simp_all

lemma channelStep_errors:
  "length (filter isErrorCallback (channelLog (channelStep c ev)))
     = length (filter isErrorCallback (channelLog c)) + (if isErrorEvent ev then 1 else 0)"
  by (induction c ev rule: channelStep.induct) (simp_all add: channelCallbacks_message)

lemma channelRun_errors:
  "length (filter isErrorCallback (channelLog (foldl channelStep c evs)))
     = length (filter isErrorCallback (channelLog c)) + length (filter isErrorEvent evs)"
  by (induction evs arbitrary: c) (simp_all add: channelStep_errors)

lemma channel_pings:
  "0 < pingIntervals c \<Longrightarrow> readyState c = OPEN \<Longrightarrow>
     channelLog (foldl channelStep c (replicate n PingTimer)) = channelLog c @ replicate n SendPing"
proof (induction n arbitrary: c)
  case 0
  then show ?case by simp
next
  case (Suc n)
  then show ?case by (simp add: replicate_append_same)
qed

text \<open>
  Claim C8 as stated (silence for an interval is treated as a liveness failure and
  surfaced through \<open>onError\<close>) fails: after the pong that answers the first ping, three more
  ping periods pass with no message, and the channel only sends its pings.
\<close>

theorem channel_silence_counterexample:
  "channelLog (channelRun silentTrace)
     = [SetPingInterval 30000, SendPing, SendPing, SendPing, SendPing]"
  by (simp add: channelRun_def silentTrace_def createProgressWebSocket_def)

text \<open>
  Claim C8, amended: the channel sends one ping per firing of the 30000 ms interval
  registered in \<open>onopen\<close> while the socket is open, and \<open>onError\<close> is invoked exactly once
  for each transport error event and each close event whose code is not 1000, and
  never otherwise: no amount of silence invokes it.
\<close>

theorem channel_onError_only_on_error_events:
  "length (filter isErrorCallback (channelLog (channelRun evs))) = length (filter isErrorEvent evs)
   \<and> channelLog (channelRun (WsOpen # replicate n PingTimer))
       = SetPingInterval 30000 # replicate n SendPing"
  using channelRun_errors [of createProgressWebSocket evs]
    channel_pings [of "channelStep createProgressWebSocket WsOpen" n]
  by (simp add: channelRun_def createProgressWebSocket_def)

theorem channel_onError_only_on_error_events_witness:
  "filter isErrorCallback (channelLog (channelRun (WsOpen # replicate 3 PingTimer))) = []
   \<and> channelLog (channelRun (WsOpen # replicate 3 PingTimer))
       = [SetPingInterval 30000, SendPing, SendPing, SendPing]"
  using channel_onError_only_on_error_events [of "WsOpen # replicate 3 PingTimer" 3]
  by (simp add: numeral_3_eq_3)

section \<open>Upload container: results\<close>

lemma cleanup_refs:
  "wsRef (cleanup s) = None" "pollIntervalRef (cleanup s) = None"
  "currentJobId (cleanup s) = currentJobId s" "uploadedDocumentId (cleanup s) = uploadedDocumentId s"
  "pendingStarts (cleanup s) = pendingStarts s" "pendingPolls (cleanup s) = pendingPolls s"
  "statusPoller (cleanup s) = statusPoller s"
  by (simp_all add: cleanup_def Let_def split: option.splits)

lemma cleanup_closes:
  "wsRef s = Some w \<Longrightarrow> w \<in> set (closedSockets (cleanup s))"
  "pollIntervalRef s = Some t \<Longrightarrow> map_of (intervals (cleanup s)) t = None"
  by (auto simp: cleanup_def Let_def map_of_eq_None_iff split: option.splits)

lemma cleanup_log:
  "terminalNotifications (cleanup s) = terminalNotifications s"
  "invalidations (cleanup s) = invalidations s"
  by (simp_all add: cleanup_def Let_def terminalNotifications_def invalidations_def
      split: option.splits)

lemma emit_log:
  "terminalNotifications (emit es s) = terminalNotifications s @ filter isTerminalNotification es"
  "invalidations (emit es s) = invalidations s @ filter isInvalidation es"
  by (simp_all add: emit_def terminalNotifications_def invalidations_def)

lemma field_update_log:
  "terminalNotifications (s\<lparr>currentJobId := v\<rparr>) = terminalNotifications s"
  "invalidations (s\<lparr>currentJobId := v\<rparr>) = invalidations s"
  "terminalNotifications (s\<lparr>pendingPolls := ps\<rparr>) = terminalNotifications s"
  "invalidations (s\<lparr>pendingPolls := ps\<rparr>) = invalidations s"
  "terminalNotifications (s\<lparr>uploadedDocumentId := u\<rparr>) = terminalNotifications s"
  "invalidations (s\<lparr>uploadedDocumentId := u\<rparr>) = invalidations s"
  "terminalNotifications (s\<lparr>pendingStarts := q\<rparr>) = terminalNotifications s"
  "invalidations (s\<lparr>pendingStarts := q\<rparr>) = invalidations s"
  "terminalNotifications (s\<lparr>statusPoller := p\<rparr>) = terminalNotifications s"
  "invalidations (s\<lparr>statusPoller := p\<rparr>) = invalidations s"
  by (simp_all add: terminalNotifications_def invalidations_def)

lemma processingEffect_log:
  "terminalNotifications (processingEffect s) = terminalNotifications s"
  "invalidations (processingEffect s) = invalidations s"
  by (simp_all add: processingEffect_def terminalNotifications_def invalidations_def
      split: option.splits)

lemma processingEffect_refs:
  "wsRef (processingEffect s) = wsRef s" "pollIntervalRef (processingEffect s) = pollIntervalRef s"
  "currentJobId (processingEffect s) = currentJobId s"
  by (simp_all add: processingEffect_def split: option.splits)

lemma rerender_log:
  "terminalNotifications (rerender old new) = terminalNotifications new"
  "invalidations (rerender old new) = invalidations new"
  by (simp_all add: rerender_def processingEffect_log)

lemma rerender_refs:
  "wsRef (rerender old new) = wsRef new" "pollIntervalRef (rerender old new) = pollIntervalRef new"
  "currentJobId (rerender old new) = currentJobId new"
  by (simp_all add: rerender_def processingEffect_refs)

text \<open>The document status poller touches nothing but its own part of the state: in
  every other field a step is its handler followed by the processing effect.\<close>

lemma step_fields:
  "uploadedDocumentId (step s e) = uploadedDocumentId (rerender s (handle s e))"
  "currentJobId (step s e) = currentJobId (rerender s (handle s e))"
  "wsRef (step s e) = wsRef (rerender s (handle s e))"
  "pollIntervalRef (step s e) = pollIntervalRef (rerender s (handle s e))"
  "sockets (step s e) = sockets (rerender s (handle s e))"
  "closedSockets (step s e) = closedSockets (rerender s (handle s e))"
  "intervals (step s e) = intervals (rerender s (handle s e))"
  "pendingStarts (step s e) = pendingStarts (rerender s (handle s e))"
  "pendingPolls (step s e) = pendingPolls (rerender s (handle s e))"
  "nextHandle (step s e) = nextHandle (rerender s (handle s e))"
  "log (step s e) = log (rerender s (handle s e))"
  by (simp_all add: step_def)

lemma step_log:
  "terminalNotifications (step s e) = terminalNotifications (rerender s (handle s e))"
  "invalidations (step s e) = invalidations (rerender s (handle s e))"
  by (simp_all add: terminalNotifications_def invalidations_def step_fields)

lemma startStatusPolling_log:
  "terminalNotifications (startStatusPolling j d s) = terminalNotifications s"
  "invalidations (startStatusPolling j d s) = invalidations s"
  by (simp_all add: startStatusPolling_def terminalNotifications_def invalidations_def)

lemma progressUpdate_status: "up_status (progressUpdate p) = ''processing''"
  by (simp add: progressUpdate_def)

lemma onCallback_invalidations: "invalidations (onCallback j d s cb) = invalidations s"
  by (cases cb) (simp_all add: cleanup_log emit_log field_update_log startStatusPolling_log)

lemma callbacks_invalidations: "invalidations (foldl (onCallback j d) s cbs) = invalidations s"
  by (induction cbs arbitrary: s) (simp_all add: onCallback_invalidations)

lemma onPollSettled_invalidations: "invalidations (onPollSettled r s) = invalidations s"
  by (cases r)
    (simp_all add: onPollSettled_def Let_def cleanup_log emit_log field_update_log
      split: option.splits)

lemma handle_invalidations: "invalidations (handle s e) = invalidations s"
proof (cases e)
  case (HandleFileUpload isPdf)
  then show ?thesis by (simp add: emit_log)
next
  case (UploadSuccess d)
  then show ?thesis by (simp add: emit_log field_update_log)
next
  case (UploadFailed m)
  then show ?thesis by (simp add: emit_log)
next
  case (StartResolved jobId)
  then show ?thesis by (simp add: invalidations_def split: list.splits)
next
  case StartRejected
  then show ?thesis by (simp add: emit_log field_update_log split: list.splits)
next
  case (Ws h ev)
  then show ?thesis
    by (cases ev)
      (simp_all add: callbacks_invalidations startStatusPolling_log emit_log
        split: option.splits)
next
  case (IntervalTick t)
  then show ?thesis by (simp add: invalidations_def split: option.splits)
next
  case (PollSettled r)
  then show ?thesis
    by (simp add: onPollSettled_invalidations field_update_log split: list.splits)
next
  case (DocIntervalTick t)
  then show ?thesis by (simp add: field_update_log)
next
  case (DocPollSettled st)
  then show ?thesis by (simp add: emit_log field_update_log split: list.splits)
next
  case Render
  then show ?thesis by simp
next
  case Unmount
  then show ?thesis by (simp add: cleanup_log field_update_log)
qed

lemma step_invalidations: "invalidations (step s e) = invalidations s"
  by (simp add: step_log rerender_log handle_invalidations)

lemma run_invalidations: "invalidations (foldl step s evs) = invalidations s"
  by (induction evs arbitrary: s) (simp_all add: step_invalidations)

lemma channel_terminal:
  assumes "status = ''completed'' \<or> status = ''failed''"
    and "map_of (sockets s) h = Some (j, d)" and "h \<notin> set (closedSockets s)"
  shows "length (terminalNotifications (step s (Ws h (WsMessage (JobStatus status)))))
           = Suc (length (terminalNotifications s))"
    and "wsRef (step s (Ws h (WsMessage (JobStatus status)))) = None"
    and "pollIntervalRef (step s (Ws h (WsMessage (JobStatus status)))) = None"
    and "currentJobId (step s (Ws h (WsMessage (JobStatus status)))) = None"
  using assms
  by (auto simp: step_log step_fields rerender_log rerender_refs cleanup_log cleanup_refs
      emit_log field_update_log completedProgress_def failedProgress_def)

lemma poller_terminal:
  assumes "status = ''completed'' \<or> status = ''failed''"
    and "pendingPolls s \<noteq> []" and "job_status r = status"
  shows "length (terminalNotifications (step s (PollSettled (Resolved r))))
           = Suc (length (terminalNotifications s))"
    and "wsRef (step s (PollSettled (Resolved r))) = None"
    and "pollIntervalRef (step s (PollSettled (Resolved r))) = None"
    and "currentJobId (step s (PollSettled (Resolved r))) = None"
  using assms
  by (auto simp: step_log step_fields rerender_log rerender_refs cleanup_log cleanup_refs
      emit_log field_update_log completedProgress_def failedProgress_def onPollSettled_def
      Let_def progressUpdate_status
      split: list.splits option.splits)

lemmas container_defs =
  run_def step_def renders_def rerender_def processingEffect_def initialContainer_def emit_def
  startStatusPolling_def cleanup_def onPollSettled_def usePollingRender_def
  usePollingEffect_def startPolling_def stopPolling_def

lemma fallback_state:
  "run fallbackTrace
     = \<lparr>uploadedDocumentId = Some ''doc_1'', currentJobId = Some ''job_1'', wsRef = Some 1,
        pollIntervalRef = Some 2, sockets = [(1, ''job_1'', ''doc_1'')], closedSockets = [],
        intervals = [(2, ''job_1'', ''doc_1'')], pendingStarts = [], pendingPolls = [],
        nextHandle = 3,
        log = [ToastSuccess ''Document uploaded successfully!'',
               OnDocumentUploaded ''doc_1'',
               ConsoleLog ''Starting async processing for uploaded document'',
               PostStartAsyncProcessing ''doc_1'',
               OnUploadProgress initialProgress,
               CreateProgressWebSocket 1 ''job_1'',
               ConsoleError ''WebSocket error'',
               ConsoleLog ''Starting status polling as WebSocket fallback'',
               SetInterval 2 3000],
        statusPoller =
          \<lparr>intervalRef = Some (2, ''doc_1''), inFlight = [''doc_1'', ''doc_1''],
           nextPollingHandle = 3,
           pollingLog = [ApiExecute, SetInterval 1 2000, ClearInterval 1, ApiExecute,
                         SetInterval 2 2000]\<rparr>\<rparr>"
  by (simp add: fallbackTrace_def container_defs)

lemma run_append: "run (evs @ evs') = foldl step (run evs) evs'"
  by (simp add: run_def)

text \<open>
  Claim C7 (every start of polling, the fallback after a channel error included, issues
  its first status request immediately). After the channel error of \<open>fallbackTrace\<close> the
  container has registered the 3000 ms interval and issued no status request; the
  first one is issued when the interval fires.
\<close>

theorem fallback_polling_first_request_delayed:
  "log (run fallbackTrace)
     = [ToastSuccess ''Document uploaded successfully!'',
        OnDocumentUploaded ''doc_1'',
        ConsoleLog ''Starting async processing for uploaded document'',
        PostStartAsyncProcessing ''doc_1'',
        OnUploadProgress initialProgress,
        CreateProgressWebSocket 1 ''job_1'',
        ConsoleError ''WebSocket error'',
        ConsoleLog ''Starting status polling as WebSocket fallback'',
        SetInterval 2 3000]
   \<and> pendingPolls (run fallbackTrace) = []
   \<and> log (run (fallbackTrace @ [IntervalTick 2]))
       = log (run fallbackTrace) @ [GetAsyncProcessingStatus ''doc_1'' ''job_1'']"
  by (simp add: fallbackTrace_def container_defs)

text \<open>
  Claim C3 as stated (when both the channel and the poller report a terminal status,
  exactly one terminal notification and exactly one cache invalidation are produced)
  fails on \<open>raceTrace\<close>: the caller is notified twice, two toasts are shown, and
  no invalidation is requested. It fails on \<open>closeRaceTrace\<close> in the same way.
\<close>

theorem race_two_notifications:
  "terminalNotifications (run raceTrace)
     = [OnUploadProgress completedProgress, OnUploadProgress completedProgress]
   \<and> filter isTerminalToast (log (run raceTrace))
       = [ToastSuccess ''Document processed successfully!'',
          ToastSuccess ''Document processed successfully!'']
   \<and> invalidations (run raceTrace) = []
   \<and> terminalNotifications (run closeRaceTrace)
       = [OnUploadProgress completedProgress, OnUploadProgress completedProgress]
   \<and> invalidations (run closeRaceTrace) = []"
proof -
  have a: "terminalNotifications (run raceTrace)
     = [OnUploadProgress completedProgress, OnUploadProgress completedProgress]
   \<and> filter isTerminalToast (log (run raceTrace))
       = [ToastSuccess ''Document processed successfully!'',
          ToastSuccess ''Document processed successfully!'']
   \<and> invalidations (run raceTrace) = []"
    by (simp add: raceTrace_def run_append fallback_state terminalNotifications_def
        invalidations_def step_def renders_def rerender_def processingEffect_def emit_def
        cleanup_def onPollSettled_def usePollingRender_def usePollingEffect_def
        startPolling_def stopPolling_def completedStatus_def completedProgress_def
        initialProgress_def)
  have b: "terminalNotifications (run closeRaceTrace)
       = [OnUploadProgress completedProgress, OnUploadProgress completedProgress]
   \<and> invalidations (run closeRaceTrace) = []"
    by (simp add: closeRaceTrace_def terminalNotifications_def invalidations_def
        container_defs completedStatus_def completedProgress_def initialProgress_def)
  from a b show ?thesis by simp
qed

text \<open>
  Claim C3, amended: terminal handling is per report, not per job. In every state, a
  \<open>completed\<close> or \<open>failed\<close> status delivered on a socket that has not been closed, and a
  status response with \<open>completed\<close> or \<open>failed\<close> to a request in flight, each add
  exactly one terminal notification and run \<open>cleanup\<close>, whatever was handled before;
  and no event makes the container request a cache invalidation.
\<close>

theorem terminal_reports_not_deduplicated:
  "(status = ''completed'' \<or> status = ''failed'' \<longrightarrow>
      (map_of (sockets s) h = Some (j, d) \<and> h \<notin> set (closedSockets s) \<longrightarrow>
         length (terminalNotifications (step s (Ws h (WsMessage (JobStatus status)))))
           = Suc (length (terminalNotifications s))
         \<and> wsRef (step s (Ws h (WsMessage (JobStatus status)))) = None
         \<and> pollIntervalRef (step s (Ws h (WsMessage (JobStatus status)))) = None)
      \<and> (pendingPolls s \<noteq> [] \<and> job_status r = status \<longrightarrow>
         length (terminalNotifications (step s (PollSettled (Resolved r))))
           = Suc (length (terminalNotifications s))
         \<and> wsRef (step s (PollSettled (Resolved r))) = None
         \<and> pollIntervalRef (step s (PollSettled (Resolved r))) = None))
   \<and> invalidations (step s e) = invalidations s
   \<and> invalidations (run evs) = []"
proof -
  have "invalidations (run evs) = invalidations initialContainer"
    unfolding run_def by (rule run_invalidations)
  then have "invalidations (run evs) = []"
    by (simp add: invalidations_def initialContainer_def)
  then show ?thesis
    using channel_terminal [of status s h j d] poller_terminal [of status s r]
      step_invalidations [of s e]
    by simp
qed

theorem terminal_reports_not_deduplicated_witness:
  "length (terminalNotifications
      (step (run (fallbackTrace @ [IntervalTick 2])) (Ws 1 (WsMessage (JobStatus ''completed'')))))
     = Suc (length (terminalNotifications (run (fallbackTrace @ [IntervalTick 2]))))
   \<and> length (terminalNotifications
      (step (run (fallbackTrace @ [IntervalTick 2])) (PollSettled (Resolved completedStatus))))
     = Suc (length (terminalNotifications (run (fallbackTrace @ [IntervalTick 2]))))"
proof -
  let ?s = "run (fallbackTrace @ [IntervalTick 2])"
  have st: "?s = (run fallbackTrace)
      \<lparr>pendingPolls := [(''job_1'', ''doc_1'')],
        log := log (run fallbackTrace) @ [GetAsyncProcessingStatus ''doc_1'' ''job_1'']\<rparr>"
    by (simp add: run_append fallback_state step_def renders_def rerender_def)
  have h1: "map_of (sockets ?s) 1 = Some (''job_1'', ''doc_1'') \<and> 1 \<notin> set (closedSockets ?s)"
    by (simp add: st fallback_state)
  have h2: "pendingPolls ?s \<noteq> [] \<and> job_status completedStatus = ''completed''"
    by (simp add: st completedStatus_def)
  from terminal_reports_not_deduplicated
    [of "''completed''" ?s 1 "''job_1''" "''doc_1''" completedStatus "IntervalTick 2" "[]"] h1 h2
  show ?thesis by blast
qed

lemma cleared_interval_silent:
  "pollIntervalRef s = Some t \<Longrightarrow> handle (cleanup s) (IntervalTick t) = cleanup s"
  by (simp add: cleanup_closes)

lemma tracking_state:
  "run trackingTrace
     = \<lparr>uploadedDocumentId = Some ''doc_1'', currentJobId = Some ''job_1'', wsRef = Some 1,
        pollIntervalRef = None, sockets = [(1, ''job_1'', ''doc_1'')], closedSockets = [],
        intervals = [], pendingStarts = [], pendingPolls = [], nextHandle = 2,
        log = [ToastSuccess ''Document uploaded successfully!'',
               OnDocumentUploaded ''doc_1'',
               ConsoleLog ''Starting async processing for uploaded document'',
               PostStartAsyncProcessing ''doc_1'',
               OnUploadProgress initialProgress,
               CreateProgressWebSocket 1 ''job_1''],
        statusPoller =
          \<lparr>intervalRef = Some (2, ''doc_1''), inFlight = [''doc_1'', ''doc_1''],
           nextPollingHandle = 3,
           pollingLog = [ApiExecute, SetInterval 1 2000, ClearInterval 1, ApiExecute,
                         SetInterval 2 2000]\<rparr>\<rparr>"
  by (simp add: trackingTrace_def container_defs)

lemma polling_state:
  "run pollingTrace
     = \<lparr>uploadedDocumentId = Some ''doc_1'', currentJobId = Some ''job_1'', wsRef = Some 1,
        pollIntervalRef = Some 3, sockets = [(1, ''job_1'', ''doc_1'')], closedSockets = [],
        intervals = [(2, ''job_1'', ''doc_1''), (3, ''job_1'', ''doc_1'')],
        pendingStarts = [], pendingPolls = [], nextHandle = 4,
        log = [ToastSuccess ''Document uploaded successfully!'',
               OnDocumentUploaded ''doc_1'',
               ConsoleLog ''Starting async processing for uploaded document'',
               PostStartAsyncProcessing ''doc_1'',
               OnUploadProgress initialProgress,
               CreateProgressWebSocket 1 ''job_1'',
               ConsoleError ''WebSocket error'',
               ConsoleLog ''Starting status polling as WebSocket fallback'',
               SetInterval 2 3000,
               ConsoleError ''WebSocket error'',
               ConsoleLog ''Starting status polling as WebSocket fallback'',
               SetInterval 3 3000],
        statusPoller =
          \<lparr>intervalRef = Some (2, ''doc_1''), inFlight = [''doc_1'', ''doc_1''],
           nextPollingHandle = 3,
           pollingLog = [ApiExecute, SetInterval 1 2000, ClearInterval 1, ApiExecute,
                         SetInterval 2 2000]\<rparr>\<rparr>"
  by (simp add: pollingTrace_def container_defs)

text \<open>An upload that is answered while a job is tracked changes nothing of the job
  tracking, and starts no processing.\<close>

lemma upload_keeps_tracking:
  assumes "truthy (currentJobId s)"
  shows "wsRef (step s (UploadSuccess d)) = wsRef s"
    and "pollIntervalRef (step s (UploadSuccess d)) = pollIntervalRef s"
    and "sockets (step s (UploadSuccess d)) = sockets s"
    and "closedSockets (step s (UploadSuccess d)) = closedSockets s"
    and "intervals (step s (UploadSuccess d)) = intervals s"
    and "currentJobId (step s (UploadSuccess d)) = currentJobId s"
    and "pendingStarts (step s (UploadSuccess d)) = pendingStarts s"
    and "uploadedDocumentId (step s (UploadSuccess d)) = Some d"
    and "log (step s (UploadSuccess d))
           = log s @ [ToastSuccess ''Document uploaded successfully!'', OnDocumentUploaded d]"
  using assms
  by (simp_all add: step_fields rerender_def processingEffect_def emit_def)

lemma tick_requests_status:
  assumes "map_of (intervals s) t = Some (j, d0)"
  shows "log (step s (IntervalTick t)) = log s @ [GetAsyncProcessingStatus d0 j]"
  using assms by (simp add: step_fields rerender_def)

lemma fileUpload_keeps_tracking:
  "wsRef (step s (HandleFileUpload b)) = wsRef s"
  "pollIntervalRef (step s (HandleFileUpload b)) = pollIntervalRef s"
  "closedSockets (step s (HandleFileUpload b)) = closedSockets s"
  "intervals (step s (HandleFileUpload b)) = intervals s"
  "pendingStarts (step s (HandleFileUpload b)) = pendingStarts s"
  "filter isTeardown (log (step s (HandleFileUpload b))) = filter isTeardown (log s)"
  by (simp_all add: step_fields rerender_def emit_def)

text \<open>
  Claim C4 as stated (a new upload while the prior job is non-terminal closes the prior
  channel and stops the prior poller, after which no request names the old job) fails
  on \<open>reuploadTrace\<close> and \<open>reuploadPollingTrace\<close>, whether the upload answers with the
  id of the document whose job is running or with a new id: after the upload the
  socket of \<open>job_1\<close> has not been closed, its intervals are still registered, nothing
  has been torn down, and the next firing requests the status of \<open>job_1\<close>.
\<close>

theorem reupload_keeps_job_tracking:
  "wsRef (run (reuploadTrace ''doc_1'')) = Some 1
   \<and> closedSockets (run (reuploadTrace ''doc_1'')) = []
   \<and> currentJobId (run (reuploadTrace ''doc_1'')) = Some ''job_1''
   \<and> filter isTeardown (log (run (reuploadTrace ''doc_1''))) = []
   \<and> pollIntervalRef (run (reuploadPollingTrace ''doc_1'')) = Some 3
   \<and> intervals (run (reuploadPollingTrace ''doc_1''))
       = [(2, ''job_1'', ''doc_1''), (3, ''job_1'', ''doc_1'')]
   \<and> filter isTeardown (log (run (reuploadPollingTrace ''doc_1''))) = []
   \<and> last (log (run (reuploadPollingTrace ''doc_1'')))
       = GetAsyncProcessingStatus ''doc_1'' ''job_1''
   \<and> wsRef (run (reuploadTrace ''doc_2'')) = Some 1
   \<and> closedSockets (run (reuploadTrace ''doc_2'')) = []
   \<and> pendingStarts (run (reuploadTrace ''doc_2'')) = []
   \<and> filter isTeardown (log (run (reuploadPollingTrace ''doc_2''))) = []
   \<and> last (log (run (reuploadPollingTrace ''doc_2'')))
       = GetAsyncProcessingStatus ''doc_1'' ''job_1''"
  by (simp add: reuploadTrace_def reuploadPollingTrace_def run_append tracking_state
      polling_state step_def renders_def rerender_def processingEffect_def emit_def
      usePollingRender_def usePollingEffect_def startPolling_def stopPolling_def
      initialProgress_def)

text \<open>
  Claim C4, amended: a new upload does not tear the prior job's tracking down. While
  \<open>currentJobId\<close> is set, \<open>handleFileUpload\<close> and the upload's \<open>onSuccess\<close> leave the
  socket in \<open>wsRef\<close> open and the job's intervals registered, so that an interval that
  fires afterwards still requests the old job's status, and the effect, gated on
  \<open>!currentJobId\<close>, starts no processing; of the hook's own code only the toast, the
  caller's notification and the new document id remain, and only the document status
  poller is restarted, for the new id. With no job tracked the same \<open>onSuccess\<close> starts
  processing for the new document. Teardown of the job tracking is \<open>cleanup\<close>: it
  empties \<open>wsRef\<close> and \<open>pollIntervalRef\<close>, closes the socket that \<open>wsRef\<close> held and
  clears the interval that \<open>pollIntervalRef\<close> held, whose firing then issues no request.
\<close>

theorem upload_during_job_no_teardown:
  "(truthy (currentJobId s) \<longrightarrow>
      wsRef (step s (UploadSuccess d)) = wsRef s
      \<and> pollIntervalRef (step s (UploadSuccess d)) = pollIntervalRef s
      \<and> sockets (step s (UploadSuccess d)) = sockets s
      \<and> closedSockets (step s (UploadSuccess d)) = closedSockets s
      \<and> intervals (step s (UploadSuccess d)) = intervals s
      \<and> currentJobId (step s (UploadSuccess d)) = currentJobId s
      \<and> pendingStarts (step s (UploadSuccess d)) = pendingStarts s
      \<and> uploadedDocumentId (step s (UploadSuccess d)) = Some d
      \<and> log (step s (UploadSuccess d))
          = log s @ [ToastSuccess ''Document uploaded successfully!'', OnDocumentUploaded d]
      \<and> (map_of (intervals s) t = Some (j, d0) \<longrightarrow>
           log (step (step s (UploadSuccess d)) (IntervalTick t))
             = log (step s (UploadSuccess d)) @ [GetAsyncProcessingStatus d0 j])
      \<and> (d \<noteq> [] \<and> uploadedDocumentId s \<noteq> Some d \<longrightarrow>
           statusPoller (step s (UploadSuccess d)) = usePollingRender (Some d) (statusPoller s)))
   \<and> wsRef (step s (HandleFileUpload b)) = wsRef s
   \<and> pollIntervalRef (step s (HandleFileUpload b)) = pollIntervalRef s
   \<and> closedSockets (step s (HandleFileUpload b)) = closedSockets s
   \<and> intervals (step s (HandleFileUpload b)) = intervals s
   \<and> pendingStarts (step s (HandleFileUpload b)) = pendingStarts s
   \<and> filter isTeardown (log (step s (HandleFileUpload b))) = filter isTeardown (log s)
   \<and> (\<not> truthy (currentJobId s) \<and> d \<noteq> [] \<and> uploadedDocumentId s \<noteq> Some d \<longrightarrow>
        log (step s (UploadSuccess d))
          = log s @ [ToastSuccess ''Document uploaded successfully!'', OnDocumentUploaded d,
                     ConsoleLog ''Starting async processing for uploaded document'',
                     PostStartAsyncProcessing d])
   \<and> wsRef (cleanup s) = None \<and> pollIntervalRef (cleanup s) = None
   \<and> (wsRef s = Some w \<longrightarrow> w \<in> set (closedSockets (cleanup s)))
   \<and> (pollIntervalRef s = Some t \<longrightarrow> handle (cleanup s) (IntervalTick t) = cleanup s)"
proof -
  have tick: "log (step (step s (UploadSuccess d)) (IntervalTick t))
             = log (step s (UploadSuccess d)) @ [GetAsyncProcessingStatus d0 j]"
    if "truthy (currentJobId s)" "map_of (intervals s) t = Some (j, d0)"
    using that upload_keeps_tracking(5) [of s d]
      tick_requests_status [of "step s (UploadSuccess d)" t j d0]
    by simp
  have poller: "statusPoller (step s (UploadSuccess d))
      = usePollingRender (Some d) (statusPoller s)"
    if "truthy (currentJobId s)" "d \<noteq> []" "uploadedDocumentId s \<noteq> Some d"
    using that
    by (auto simp: step_def renders_def rerender_def processingEffect_def emit_def)
  have start: "log (step s (UploadSuccess d))
          = log s @ [ToastSuccess ''Document uploaded successfully!'', OnDocumentUploaded d,
                     ConsoleLog ''Starting async processing for uploaded document'',
                     PostStartAsyncProcessing d]"
    if "\<not> truthy (currentJobId s)" "d \<noteq> []" "uploadedDocumentId s \<noteq> Some d"
    using that by (auto simp: step_fields rerender_def processingEffect_def emit_def)
  from tick poller start upload_keeps_tracking [of s d] fileUpload_keeps_tracking [of s b]
    cleanup_refs(1,2) [of s] cleanup_closes(1) [of s w] cleared_interval_silent [of s t]
  show ?thesis by simp
qed

theorem upload_during_job_no_teardown_witness:
  "truthy (currentJobId (run trackingTrace))
   \<and> wsRef (step (run trackingTrace) (UploadSuccess ''doc_1'')) = Some 1
   \<and> closedSockets (step (run trackingTrace) (UploadSuccess ''doc_1'')) = []
   \<and> intervals (step (run pollingTrace) (UploadSuccess ''doc_2''))
       = [(2, ''job_1'', ''doc_1''), (3, ''job_1'', ''doc_1'')]
   \<and> log (step (step (run pollingTrace) (UploadSuccess ''doc_2'')) (IntervalTick 3))
       = log (step (run pollingTrace) (UploadSuccess ''doc_2''))
         @ [GetAsyncProcessingStatus ''doc_1'' ''job_1'']
   \<and> 1 \<in> set (closedSockets (cleanup (run trackingTrace)))
   \<and> handle (cleanup (run pollingTrace)) (IntervalTick 3) = cleanup (run pollingTrace)
   \<and> statusPoller (step (run pollingTrace) (UploadSuccess ''doc_2''))
       = usePollingRender (Some ''doc_2'') (statusPoller (run pollingTrace))
   \<and> log (step initialContainer (UploadSuccess ''doc_1''))
       = [ToastSuccess ''Document uploaded successfully!'', OnDocumentUploaded ''doc_1'',
          ConsoleLog ''Starting async processing for uploaded document'',
          PostStartAsyncProcessing ''doc_1'']"
proof -
  have h1: "truthy (currentJobId (run trackingTrace))"
    and w1: "wsRef (run trackingTrace) = Some 1"
    and c1: "closedSockets (run trackingTrace) = []"
    by (simp_all add: tracking_state)
  have h2: "truthy (currentJobId (run pollingTrace))"
    and p2: "pollIntervalRef (run pollingTrace) = Some 3"
    and i2: "intervals (run pollingTrace) = [(2, ''job_1'', ''doc_1''), (3, ''job_1'', ''doc_1'')]"
    and m2: "map_of (intervals (run pollingTrace)) 3 = Some (''job_1'', ''doc_1'')"
    by (simp_all add: polling_state)
  note a = upload_during_job_no_teardown
    [of "run trackingTrace" "''doc_1''" 3 "''job_1''" "''doc_1''" True 1]
  note b = upload_during_job_no_teardown
    [of "run pollingTrace" "''doc_2''" 3 "''job_1''" "''doc_1''" True 1]
  from a h1 w1 c1 have "wsRef (step (run trackingTrace) (UploadSuccess ''doc_1'')) = Some 1"
    and "closedSockets (step (run trackingTrace) (UploadSuccess ''doc_1'')) = []"
    and "1 \<in> set (closedSockets (cleanup (run trackingTrace)))"
    by simp_all
  moreover from b h2 p2 i2 m2
  have "intervals (step (run pollingTrace) (UploadSuccess ''doc_2''))
       = [(2, ''job_1'', ''doc_1''), (3, ''job_1'', ''doc_1'')]"
    and "log (step (step (run pollingTrace) (UploadSuccess ''doc_2'')) (IntervalTick 3))
       = log (step (run pollingTrace) (UploadSuccess ''doc_2''))
         @ [GetAsyncProcessingStatus ''doc_1'' ''job_1'']"
    and "handle (cleanup (run pollingTrace)) (IntervalTick 3) = cleanup (run pollingTrace)"
    by simp_all
  moreover have u2: "uploadedDocumentId (run pollingTrace) \<noteq> Some ''doc_2''"
    by (simp add: polling_state)
  from b h2 u2
  have "statusPoller (step (run pollingTrace) (UploadSuccess ''doc_2''))
       = usePollingRender (Some ''doc_2'') (statusPoller (run pollingTrace))"
    by simp
  moreover have h0: "\<not> truthy (currentJobId initialContainer)"
    and u0: "uploadedDocumentId initialContainer \<noteq> Some ''doc_1''"
    and l0: "log initialContainer = []"
    by (simp_all add: initialContainer_def)
  from upload_during_job_no_teardown
    [of initialContainer "''doc_1''" 3 "''job_1''" "''doc_1''" True 1] h0 u0 l0
  have "log (step initialContainer (UploadSuccess ''doc_1''))
       = [ToastSuccess ''Document uploaded successfully!'', OnDocumentUploaded ''doc_1'',
          ConsoleLog ''Starting async processing for uploaded document'',
          PostStartAsyncProcessing ''doc_1'']"
    by simp
  ultimately show ?thesis using h1 by simp
qed

end
